theory Spec2Isabelle
  imports Main "HOL-Library.Word"
begin

unbundle bit_operations_syntax

section \<open>Data model (client.go)\<close>

type_synonym byte = "8 word"
type_synonym uint16 = "16 word"

text \<open>
  \<open>STUNMessageType\<close> and \<open>STUNAttributeType\<close> are \<open>uint16\<close> in the source; the
  named constants are the values the code compares against.
\<close>

definition BindingRequest :: uint16 where "BindingRequest = 0x0001"
definition BindingResponse :: uint16 where "BindingResponse = 0x0101"
definition BindingErrorResponse :: uint16 where "BindingErrorResponse = 0x0111"

definition MappedAddress :: uint16 where "MappedAddress = 0x0001"
definition XorMappedAddress :: uint16 where "XorMappedAddress = 0x0020"
definition ChangeRequest :: uint16 where "ChangeRequest = 0x0003"
definition ChangedAddress :: uint16 where "ChangedAddress = 0x0005"
definition OtherAddress :: uint16 where "OtherAddress = 0x802C"
definition ErrorCode :: uint16 where "ErrorCode = 0x0009"

definition STUNMagicCookieBytes :: "byte list" where
  "STUNMagicCookieBytes = [0x21, 0x12, 0xA4, 0x42]"

text \<open>
  \<open>STUNAttribute\<close>: the \<open>Length\<close> field is stored beside the value and is not
  tied to \<open>len(Value)\<close> by the type.
\<close>

record STUNAttribute =
  Type :: uint16
  Length :: uint16
  Value :: "byte list"

text \<open>
  \<open>STUNMessage\<close>: \<open>TransactionID\<close> is \<open>[12]byte\<close> in the source; here it is a
  byte list, and the array length appears as the hypothesis \<open>length = 12\<close> where
  a statement needs it.
\<close>

record STUNMessage =
  MessageType :: uint16
  TransactionID :: "byte list"
  Attributes :: "STUNAttribute list"

text \<open>\<open>net.UDPAddr\<close>: the IP is a byte slice, the port a Go \<open>int\<close>.\<close>

record UDPAddr =
  IP :: "byte list"
  Port :: int

section \<open>Classification types (NAT type definitions)\<close>

datatype NATMappingType =
  EndpointIndependent | AddressDependent | AddressPortDependent | Unknown

datatype NATFilteringType =
  EndpointIndependentFiltering | AddressDependentFiltering
  | AddressPortDependentFiltering | FilteringUnknown

record DetailedNATType =
  Mapping :: NATMappingType
  Filtering :: NATFilteringType

text \<open>\<open>LegacyName\<close>: the four tests of the source, in the source's order.\<close>

definition LegacyName :: "DetailedNATType \<Rightarrow> string" where
  "LegacyName d =
     (if Mapping d = EndpointIndependent \<and> Filtering d = EndpointIndependentFiltering
        then ''Full Cone NAT''
      else if Mapping d = EndpointIndependent \<and> Filtering d = AddressDependentFiltering
        then ''Restricted Cone NAT''
      else if Mapping d = EndpointIndependent \<and> Filtering d = AddressPortDependentFiltering
        then ''Port Restricted Cone NAT''
      else if Mapping d = AddressDependent \<or> Mapping d = AddressPortDependent
        then ''Symmetric NAT''
      else ''Unknown NAT Type'')"

text \<open>
  \<open>determineNATType\<close> takes three \<open>*net.UDPAddr\<close>. A pointer is an option; reading
  \<open>.Port\<close> through a nil pointer panics, which is the \<open>Inl\<close> result. The source
  reads \<open>mappingA1\<close> and \<open>mappingA2\<close> first and \<open>mappingB1\<close> only when the two
  ports agree.
\<close>

datatype panic = NilPointerDereference

definition determineNATType ::
  "UDPAddr option \<Rightarrow> UDPAddr option \<Rightarrow> UDPAddr option \<Rightarrow> panic + NATMappingType" where
  "determineNATType mappingA1 mappingB1 mappingA2 =
     (case mappingA1 of None \<Rightarrow> Inl NilPointerDereference
      | Some a1 \<Rightarrow>
     (case mappingA2 of None \<Rightarrow> Inl NilPointerDereference
      | Some a2 \<Rightarrow>
        if Port a1 \<noteq> Port a2 then Inr AddressPortDependent
        else (case mappingB1 of None \<Rightarrow> Inl NilPointerDereference
              | Some b1 \<Rightarrow>
                if Port a1 = Port b1 then Inr EndpointIndependent
                else Inr AddressDependent)))"

section \<open>Wire codec (client.go)\<close>

subsection \<open>Byte-order helpers of \<open>encoding/binary\<close>, slices and \<open>copy\<close>\<close>

text \<open>
  \<open>data[lo:hi]\<close>. Every subslice expression of the source is guarded by a length check
  or taken from a buffer of known size, so \<open>hi \<le> len(data)\<close> where it is used.
\<close>

definition subslice :: "'a list \<Rightarrow> nat \<Rightarrow> nat \<Rightarrow> 'a list" where
  "subslice data lo hi = take (hi - lo) (drop lo data)"

text \<open>\<open>binary.BigEndian.Uint16(b)\<close> is \<open>uint16(b[1]) | uint16(b[0])<<8\<close>.\<close>

definition Uint16 :: "byte list \<Rightarrow> uint16" where
  "Uint16 b = ucast (b ! 1) OR push_bit 8 (ucast (b ! 0))"

text \<open>\<open>binary.BigEndian.PutUint16\<close> and \<open>PutUint32\<close>: the bytes written.\<close>

definition PutUint16 :: "uint16 \<Rightarrow> byte list" where
  "PutUint16 v = [ucast (drop_bit 8 v), ucast v]"

definition PutUint32 :: "32 word \<Rightarrow> byte list" where
  "PutUint32 v = [ucast (drop_bit 24 v), ucast (drop_bit 16 v), ucast (drop_bit 8 v), ucast v]"

definition STUNMagicCookie :: "32 word" where
  "STUNMagicCookie = 0x2112A442"

text \<open>
  \<open>copy(data[lo:hi], src)\<close> on a buffer: \<open>min(hi - lo, len(src))\<close> bytes of \<open>src\<close>
  overwrite the buffer from \<open>lo\<close> on, everything else is kept.
\<close>

definition copy_at :: "byte list \<Rightarrow> nat \<Rightarrow> nat \<Rightarrow> byte list \<Rightarrow> byte list" where
  "copy_at data lo hi src =
     (let n = min (hi - lo) (length src)
      in take lo data @ take n src @ drop (lo + n) data)"

subsection \<open>\<open>encodeMessage\<close>\<close>

text \<open>The padding added after a value: \<open>4 - int(attr.Length%4)\<close> when \<open>attr.Length%4 != 0\<close>.\<close>

definition padding :: "uint16 \<Rightarrow> nat" where
  "padding l = (if l mod 4 \<noteq> 0 then 4 - unat (l mod 4) else 0)"

text \<open>First loop of \<open>encodeMessage\<close>: the length of the attribute section.\<close>

fun attrLen :: "STUNAttribute list \<Rightarrow> nat \<Rightarrow> nat" where
  "attrLen [] n = n"
| "attrLen (attr # rest) n = attrLen rest (n + 4 + unat (Length attr) + padding (Length attr))"

text \<open>Second loop: the attributes are written into the buffer at a running offset.\<close>

fun encodeAttrs :: "STUNAttribute list \<Rightarrow> byte list \<Rightarrow> nat \<Rightarrow> byte list" where
  "encodeAttrs [] data offset = data"
| "encodeAttrs (attr # rest) data offset =
     (let data1 = copy_at data offset (offset + 2) (PutUint16 (Type attr));
          data2 = copy_at data1 (offset + 2) (offset + 4) (PutUint16 (Length attr));
          data3 = copy_at data2 (offset + 4) (offset + 4 + unat (Length attr)) (Value attr)
      in encodeAttrs rest data3 (offset + 4 + unat (Length attr) + padding (Length attr)))"

definition encodeMessage :: "STUNMessage \<Rightarrow> byte list" where
  "encodeMessage msg =
     (let n = attrLen (Attributes msg) 0;
          data0 = replicate (20 + n) (0 :: byte);
          data1 = copy_at data0 0 2 (PutUint16 (MessageType msg));
          data2 = copy_at data1 2 4 (PutUint16 (word_of_nat n));
          data3 = copy_at data2 4 8 (PutUint32 STUNMagicCookie);
          data4 = copy_at data3 8 20 (TransactionID msg)
      in encodeAttrs (Attributes msg) data4 20)"

subsection \<open>\<open>decodeMessage\<close>\<close>

datatype net_op = Resolve | Write | Read

text \<open>
  The errors of the package. An error of package \<open>net\<close> carries what its
  \<open>Timeout()\<close> method answers; the errors made by \<open>fmt.Errorf\<close> do not implement
  \<open>net.Error\<close>. \<open>Wrapped\<close> is \<open>fmt.Errorf("...: %w", err)\<close>.
\<close>

datatype error =
    NetError net_op bool
  | ClientCreateError
  | MessageTooShort
  | StunErrorResponse int string
  | MappedAddressNotFound
  | AddressDataTooShort nat
  | IPv4AddressTooShort nat
  | IPv6AddressTooShort nat
  | UnsupportedAddressFamily byte
  | OtherAddressNotFound
  | Wrapped string error
  | Panicked panic

text \<open>
  The attribute loop of \<open>decodeMessage\<close>, from \<open>offset\<close> on, appending to the
  attributes decoded so far.
\<close>

function decodeAttrs :: "byte list \<Rightarrow> nat \<Rightarrow> STUNAttribute list \<Rightarrow> STUNAttribute list" where
  "decodeAttrs data offset attrs =
     (if offset < length data then
        (if offset + 4 > length data then attrs
         else
           let attrType = Uint16 (subslice data offset (offset + 2));
               attrLength = Uint16 (subslice data (offset + 2) (offset + 4))
           in if offset + 4 + unat attrLength > length data then attrs
              else
                let attr = \<lparr>Type = attrType, Length = attrLength,
                            Value = copy_at (replicate (unat attrLength) 0) 0 (unat attrLength)
                                      (subslice data (offset + 4) (offset + 4 + unat attrLength))\<rparr>
                in decodeAttrs data (offset + 4 + unat attrLength + padding attrLength)
                     (attrs @ [attr]))
      else attrs)"
  by pat_completeness auto
termination
  by (relation "measure (\<lambda>(data, offset, attrs). length data - offset)") auto

declare decodeAttrs.simps [simp del]

definition decodeMessage :: "byte list \<Rightarrow> error + STUNMessage" where
  "decodeMessage data =
     (if length data < 20 then Inl MessageTooShort
      else Inr \<lparr>MessageType = Uint16 (subslice data 0 2),
                TransactionID = copy_at (replicate 12 0) 0 12 (subslice data 8 20),
                Attributes = decodeAttrs data 20 []\<rparr>)"

subsection \<open>\<open>parseAddress\<close>\<close>

text \<open>\<open>for i := 0; i < n; i++ { ip[i] ^= key[i] }\<close> with \<open>len(ip) = len(key) = n\<close>.\<close>

definition xor_bytes :: "byte list \<Rightarrow> byte list \<Rightarrow> byte list" where
  "xor_bytes ip key = map (\<lambda>(a, b). a XOR b) (zip ip key)"

definition parseAddress :: "byte list \<Rightarrow> bool \<Rightarrow> byte list \<Rightarrow> error + UDPAddr" where
  "parseAddress data isXor txID =
     (if length data < 8 then Inl (AddressDataTooShort (length data))
      else
        let family = data ! 1;
            port = Uint16 (subslice data 2 4)
        in if family = 0x01 then
             (if length data < 8 then Inl (IPv4AddressTooShort (length data))
              else
                let ip = copy_at (replicate 4 0) 0 4 (subslice data 4 8)
                in if isXor
                   then Inr \<lparr>IP = xor_bytes ip STUNMagicCookieBytes, Port = uint (port XOR 0x2112)\<rparr>
                   else Inr \<lparr>IP = ip, Port = uint port\<rparr>)
           else if family = 0x02 then
             (if length data < 20 then Inl (IPv6AddressTooShort (length data))
              else
                let ip = copy_at (replicate 16 0) 0 16 (subslice data 4 20)
                in if isXor
                   then
                     let xorKey0 = copy_at (replicate 16 0) 0 4 STUNMagicCookieBytes;
                         xorKey = copy_at xorKey0 4 16 txID
                     in Inr \<lparr>IP = xor_bytes ip xorKey, Port = uint (port XOR 0x2112)\<rparr>
                   else Inr \<lparr>IP = ip, Port = uint port\<rparr>)
           else Inl (UnsupportedAddressFamily family))"

subsection \<open>\<open>extractErrorCode\<close>\<close>

text \<open>
  A Go \<open>string(bytes)\<close> keeps the bytes; \<open>char_of\<close> reads each byte as the
  character with that code.
\<close>

definition string_of_bytes :: "byte list \<Rightarrow> string" where
  "string_of_bytes bs = map (\<lambda>b. char_of (unat b)) bs"

fun extractErrorCode_loop :: "STUNAttribute list \<Rightarrow> int \<times> string" where
  "extractErrorCode_loop [] = (0, '''')"
| "extractErrorCode_loop (attr # rest) =
     (if Type attr = ErrorCode \<and> length (Value attr) \<ge> 4 then
        let class = uint (Value attr ! 2 AND 0x07);
            number = uint (Value attr ! 3);
            errorCode = class * 100 + number;
            reason = (if length (Value attr) > 4
                      then string_of_bytes (drop 4 (Value attr)) else '''')
        in (errorCode, reason)
      else extractErrorCode_loop rest)"

definition extractErrorCode :: "STUNMessage \<Rightarrow> int \<times> string" where
  "extractErrorCode msg = extractErrorCode_loop (Attributes msg)"

definition isChangeRequestUnsupportedError :: "STUNMessage \<Rightarrow> bool" where
  "isChangeRequestUnsupportedError msg = (fst (extractErrorCode msg) = 420)"

section \<open>Network environment\<close>

text \<open>
  The UDP socket, the resolver and \<open>crypto/rand\<close> are outside the program. A run is
  taken against a script of what they do: the \<open>k\<close>-th transaction on a client
  (one call of \<open>SendBindingRequest\<close> or \<open>GetAlternateAddress\<close>) meets the
  \<open>k\<close>-th event. An event says whether \<open>net.ResolveUDPAddr\<close> and
  \<open>WriteToUDP\<close> fail (and what \<open>Timeout()\<close> answers on that error), which random
  bytes \<open>rand.Read\<close> delivers, and what \<open>ReadFromUDP\<close> returns before the
  deadline: an error, or a datagram.
\<close>

datatype recv_result = RecvError bool | Datagram "byte list"

record net_event =
  resolve_err :: "bool option"
  rand_bytes :: "nat \<Rightarrow> byte"
  write_err :: "bool option"
  recv :: recv_result

record network =
  listen_fails :: bool
  events :: "nat \<Rightarrow> net_event"

text \<open>
  \<open>STUNClient\<close> holds the connection. Its state here is the number of transactions
  started on it and the requests written to it: destination, bytes, and the read
  deadline in seconds that was set for the answer.
\<close>

record STUNClient =
  calls :: nat
  sent :: "(string \<times> byte list \<times> nat) list"

definition NewSTUNClient :: "network \<Rightarrow> error + STUNClient" where
  "NewSTUNClient net =
     (if listen_fails net then Inl ClientCreateError else Inr \<lparr>calls = 0, sent = []\<rparr>)"

text \<open>
  \<open>netErr, ok := err.(net.Error); ok && netErr.Timeout()\<close>: the type assertion looks
  at the error value itself, so only an error of package \<open>net\<close> can pass.
\<close>

fun is_net_timeout :: "error \<Rightarrow> bool" where
  "is_net_timeout (NetError opn t) = t"
| "is_net_timeout e = False"

text \<open>A Go result pair \<open>(*net.UDPAddr, error)\<close>, read off a sum.\<close>

definition addr_of :: "error + UDPAddr \<Rightarrow> UDPAddr option" where
  "addr_of r = (case r of Inl e \<Rightarrow> None | Inr a \<Rightarrow> Some a)"

definition err_of :: "error + UDPAddr \<Rightarrow> error option" where
  "err_of r = (case r of Inl e \<Rightarrow> Some e | Inr a \<Rightarrow> None)"

section \<open>Transaction engine (client.go)\<close>

text \<open>The attribute loop at the end of \<open>SendBindingRequest\<close>.\<close>

fun SendBindingRequest_scan :: "STUNAttribute list \<Rightarrow> byte list \<Rightarrow> error + UDPAddr" where
  "SendBindingRequest_scan [] txID = Inl MappedAddressNotFound"
| "SendBindingRequest_scan (attr # rest) txID =
     (if Type attr = XorMappedAddress then parseAddress (Value attr) True txID
      else if Type attr = MappedAddress then parseAddress (Value attr) False txID
      else SendBindingRequest_scan rest txID)"

definition SendBindingRequest ::
  "(nat \<Rightarrow> net_event) \<Rightarrow> STUNClient \<Rightarrow> string \<Rightarrow> bool \<Rightarrow> bool
     \<Rightarrow> (error + UDPAddr) \<times> STUNClient" where
  "SendBindingRequest env c serverAddr changeIP changePort =
     (let ev = env (calls c);
          c1 = c\<lparr>calls := calls c + 1\<rparr>
      in case resolve_err ev of
           Some t \<Rightarrow> (Inl (NetError Resolve t), c1)
         | None \<Rightarrow>
             let txID = map (rand_bytes ev) [0..<12];
                 msg0 = \<lparr>MessageType = BindingRequest, TransactionID = txID, Attributes = []\<rparr>;
                 msg =
                   (if changeIP \<or> changePort then
                      let v0 = (0 :: 32 word);
                          v1 = (if changeIP then v0 OR 0x04 else v0);
                          changeValue = (if changePort then v1 OR 0x02 else v1);
                          valueBytes = copy_at (replicate 4 0) 0 4 (PutUint32 changeValue)
                      in msg0\<lparr>Attributes := Attributes msg0 @
                             [\<lparr>Type = ChangeRequest, Length = 4, Value = valueBytes\<rparr>]\<rparr>
                    else msg0);
                 data = encodeMessage msg
             in case write_err ev of
                  Some t \<Rightarrow> (Inl (NetError Write t), c1)
                | None \<Rightarrow>
                    let timeout = (if changeIP \<or> changePort then 5 else 3);
                        c2 = c1\<lparr>sent := sent c1 @ [(serverAddr, data, timeout)]\<rparr>
                    in case recv ev of
                         RecvError t \<Rightarrow> (Inl (NetError Read t), c2)
                       | Datagram d \<Rightarrow>
                           (case decodeMessage (take 1024 d) of
                              Inl e \<Rightarrow> (Inl e, c2)
                            | Inr response \<Rightarrow>
                                if MessageType response = BindingErrorResponse then
                                  (case extractErrorCode response of
                                     (code, reason) \<Rightarrow> (Inl (StunErrorResponse code reason), c2))
                                else
                                  (SendBindingRequest_scan (Attributes response)
                                     (TransactionID response), c2)))"

section \<open>Alternate-address probe (client.go)\<close>

fun GetAlternateAddress_scan :: "STUNAttribute list \<Rightarrow> byte list \<Rightarrow> error + UDPAddr" where
  "GetAlternateAddress_scan [] txID = Inl OtherAddressNotFound"
| "GetAlternateAddress_scan (attr # rest) txID =
     (if Type attr = OtherAddress \<or> Type attr = ChangedAddress
      then parseAddress (Value attr) False txID
      else GetAlternateAddress_scan rest txID)"

definition GetAlternateAddress ::
  "(nat \<Rightarrow> net_event) \<Rightarrow> STUNClient \<Rightarrow> string \<Rightarrow> (error + UDPAddr) \<times> STUNClient" where
  "GetAlternateAddress env c serverAddr =
     (let ev = env (calls c);
          c1 = c\<lparr>calls := calls c + 1\<rparr>
      in case resolve_err ev of
           Some t \<Rightarrow> (Inl (NetError Resolve t), c1)
         | None \<Rightarrow>
             let txID = map (rand_bytes ev) [0..<12];
                 msg = \<lparr>MessageType = BindingRequest, TransactionID = txID, Attributes = []\<rparr>;
                 data = encodeMessage msg
             in case write_err ev of
                  Some t \<Rightarrow> (Inl (NetError Write t), c1)
                | None \<Rightarrow>
                    let c2 = c1\<lparr>sent := sent c1 @ [(serverAddr, data, 3)]\<rparr>
                    in case recv ev of
                         RecvError t \<Rightarrow> (Inl (NetError Read t), c2)
                       | Datagram d \<Rightarrow>
                           (case decodeMessage (take 1024 d) of
                              Inl e \<Rightarrow> (Inl e, c2)
                            | Inr response \<Rightarrow>
                                (GetAlternateAddress_scan (Attributes response)
                                   (TransactionID response), c2)))"

section \<open>Mapping classifier\<close>

text \<open>
  The two result records of the source both have a field \<open>Response\<close>; here they are
  \<open>MappingResponse\<close> and \<open>FilteringResponse\<close>. The field \<open>OtherAddress\<close> of
  \<open>CheckFilteringResponseData\<close> is \<open>OtherAddr\<close>, the attribute type keeping the name.
\<close>

record CheckMappingResponseData =
  MappingA1 :: "UDPAddr option"
  MappingB1 :: "UDPAddr option"
  MappingA2 :: "UDPAddr option"

record CheckMappingResult =
  NATType :: NATMappingType
  MappingResponse :: CheckMappingResponseData

definition ports :: "string list" where
  "ports = ['':3478'', '':19302'']"

text \<open>
  \<open>for _, port := range ports { mapping, err = client.SendBindingRequest(server+port,
  false, false); if err == nil { break } }\<close> on the variables \<open>mapping\<close> and \<open>err\<close>.
\<close>

fun probe_ports ::
  "(nat \<Rightarrow> net_event) \<Rightarrow> string \<Rightarrow> string list
     \<Rightarrow> UDPAddr option \<times> error option \<times> STUNClient
     \<Rightarrow> UDPAddr option \<times> error option \<times> STUNClient" where
  "probe_ports env server [] st = st"
| "probe_ports env server (port # rest) (mapping, err, c) =
     (case SendBindingRequest env c (server @ port) False False of
        (r, c') \<Rightarrow>
          if err_of r = None then (addr_of r, err_of r, c')
          else probe_ports env server rest (addr_of r, err_of r, c'))"

definition CheckMappingType ::
  "network \<Rightarrow> string \<Rightarrow> string \<Rightarrow> (error + CheckMappingResult) \<times> STUNClient option" where
  "CheckMappingType net serverIpA serverIpB =
     (case NewSTUNClient net of
        Inl e \<Rightarrow> (Inl (Wrapped ''STUN client creation error'' e), None)
      | Inr client \<Rightarrow>
     (case probe_ports (events net) serverIpA ports (None, None, client) of
        (mappingA1, Some e, c1) \<Rightarrow> (Inl (Wrapped ''request to server A failed'' e), Some c1)
      | (mappingA1, None, c1) \<Rightarrow>
     (case probe_ports (events net) serverIpB ports (None, None, c1) of
        (mappingB1, Some e, c2) \<Rightarrow> (Inl (Wrapped ''request to server B failed'' e), Some c2)
      | (mappingB1, None, c2) \<Rightarrow>
     (case probe_ports (events net) serverIpA ports (None, None, c2) of
        (mappingA2, Some e, c3) \<Rightarrow>
          (Inl (Wrapped ''second request to server A failed'' e), Some c3)
      | (mappingA2, None, c3) \<Rightarrow>
     (case determineNATType mappingA1 mappingB1 mappingA2 of
        Inl p \<Rightarrow> (Inl (Panicked p), Some c3)
      | Inr natType \<Rightarrow>
          (Inr \<lparr>NATType = natType,
                MappingResponse = \<lparr>MappingA1 = mappingA1, MappingB1 = mappingB1,
                                    MappingA2 = mappingA2\<rparr>\<rparr>, Some c3))))))"

section \<open>Filtering classifier\<close>

record STUNServerSupportInfo =
  SupportsChangeRequest :: bool
  SupportsOtherAddress :: bool

record CheckFilteringResponseData =
  OtherAddr :: "UDPAddr option"
  TestIIResponse :: bool
  TestIIIResponse :: bool

record CheckFilteringResult =
  FilteringType :: NATFilteringType
  FilteringResponse :: CheckFilteringResponseData
  ServerSupport :: STUNServerSupportInfo

text \<open>
  Test I: \<open>for _, port := range ports { serverWithPort = serverAddr + port; otherAddr,
  err = client.GetAlternateAddress(serverWithPort); if err == nil { break } }\<close> on the
  variables \<open>otherAddr\<close>, \<open>err\<close> and \<open>serverWithPort\<close>.
\<close>

fun alternate_ports ::
  "(nat \<Rightarrow> net_event) \<Rightarrow> string \<Rightarrow> string list
     \<Rightarrow> UDPAddr option \<times> error option \<times> string \<times> STUNClient
     \<Rightarrow> UDPAddr option \<times> error option \<times> string \<times> STUNClient" where
  "alternate_ports env server [] st = st"
| "alternate_ports env server (port # rest) (otherAddr, err, serverWithPort, c) =
     (case GetAlternateAddress env c (server @ port) of
        (r, c') \<Rightarrow>
          if err_of r = None then (addr_of r, err_of r, server @ port, c')
          else alternate_ports env server rest (addr_of r, err_of r, server @ port, c'))"

text \<open>
  The struct literal that creates \<open>result\<close> leaves \<open>FilteringType\<close>,
  \<open>TestIIResponse\<close>, \<open>TestIIIResponse\<close> and \<open>SupportsChangeRequest\<close> at their zero
  values: \<open>EndpointIndependentFiltering\<close> (the constant 0) and \<open>false\<close>.
\<close>

definition CheckFilteringBehavior ::
  "network \<Rightarrow> string \<Rightarrow> (error + CheckFilteringResult) \<times> STUNClient option" where
  "CheckFilteringBehavior net serverAddr =
     (case NewSTUNClient net of
        Inl e \<Rightarrow> (Inl (Wrapped ''STUN client creation error'' e), None)
      | Inr client \<Rightarrow>
     (case alternate_ports (events net) serverAddr ports (None, None, [], client) of
        (otherAddr, err, serverWithPort, c1) \<Rightarrow>
          let result = \<lparr>FilteringType = EndpointIndependentFiltering,
                        FilteringResponse = \<lparr>OtherAddr = otherAddr, TestIIResponse = False,
                                              TestIIIResponse = False\<rparr>,
                        ServerSupport = \<lparr>SupportsChangeRequest = False,
                                          SupportsOtherAddress = (otherAddr \<noteq> None)\<rparr>\<rparr>
          in if otherAddr = None
             then (Inr (result\<lparr>FilteringType := FilteringUnknown\<rparr>), Some c1)
             else
               (case SendBindingRequest (events net) c1 serverWithPort True True of
                  (r2, c2) \<Rightarrow>
                    let testIIAddr = addr_of r2;
                        testIIErr = err_of r2;
                        result2 = result\<lparr>FilteringResponse := (FilteringResponse result)
                                    \<lparr>TestIIResponse := (testIIErr = None \<and> testIIAddr \<noteq> None)\<rparr>\<rparr>
                    in if TestIIResponse (FilteringResponse result2)
                       then (Inr (result2\<lparr>FilteringType := EndpointIndependentFiltering,
                                     ServerSupport := (ServerSupport result2)
                                       \<lparr>SupportsChangeRequest := True\<rparr>\<rparr>), Some c2)
                       else if (case testIIErr of None \<Rightarrow> False | Some e \<Rightarrow> \<not> is_net_timeout e)
                       then (Inr (result2\<lparr>FilteringType := FilteringUnknown,
                                     ServerSupport := (ServerSupport result2)
                                       \<lparr>SupportsChangeRequest := False\<rparr>\<rparr>), Some c2)
                       else
                         (case SendBindingRequest (events net) c2 serverWithPort False True of
                            (r3, c3) \<Rightarrow>
                              let testIIIAddr = addr_of r3;
                                  testIIIErr = err_of r3;
                                  result3 = result2\<lparr>FilteringResponse := (FilteringResponse result2)
                                    \<lparr>TestIIIResponse := (testIIIErr = None \<and> testIIIAddr \<noteq> None)\<rparr>\<rparr>
                              in if TestIIIResponse (FilteringResponse result3)
                                 then (Inr (result3\<lparr>FilteringType := AddressDependentFiltering,
                                               ServerSupport := (ServerSupport result3)
                                                 \<lparr>SupportsChangeRequest := True\<rparr>\<rparr>), Some c3)
                                 else (Inr (result3\<lparr>FilteringType := AddressPortDependentFiltering,
                                               ServerSupport := (ServerSupport result3)
                                                 \<lparr>SupportsChangeRequest := True\<rparr>\<rparr>), Some c3)))))"

section \<open>Definitions used to state the properties\<close>

text \<open>An attribute whose \<open>Length\<close> field is the byte length of its value.\<close>

definition wf_attr :: "STUNAttribute \<Rightarrow> bool" where
  "wf_attr a = (unat (Length a) = length (Value a))"

text \<open>
  A well-formed message: the transaction identifier has the 12 bytes of the source's
  array type, and every attribute is well-formed.
\<close>

definition wf_msg :: "STUNMessage \<Rightarrow> bool" where
  "wf_msg m = (length (TransactionID m) = 12 \<and> list_all wf_attr (Attributes m))"

text \<open>The bytes one well-formed attribute occupies on the wire, padding included.\<close>

definition wire_attr :: "STUNAttribute \<Rightarrow> byte list" where
  "wire_attr a =
     PutUint16 (Type a) @ PutUint16 (Length a) @ Value a @ replicate (padding (Length a)) 0"

text \<open>
  Bytes that do not hold a whole attribute: fewer than the 4 header bytes, or fewer
  than the header announces.
\<close>

definition truncated :: "byte list \<Rightarrow> bool" where
  "truncated t = (length t < 4 \<or> length t < 4 + unat (Uint16 (subslice t 2 4)))"

text \<open>
  The XOR-obfuscated payload of an IPv4 endpoint, after the words of the specification
  (section 3, reflexive-address payload): one reserved zero byte, the family byte
  \<open>0x01\<close>, the two bytes of the port XORed with \<open>0x2112\<close>, high byte first, and the
  four address bytes XORed with the bytes \<open>21 12 A4 42\<close> of the magic cookie. It is
  written out in bytes and uses none of the functions that embed the program. The
  repository itself only parses such payloads; a STUN server produces them.
\<close>

definition xorObfuscateIPv4 :: "byte list \<Rightarrow> uint16 \<Rightarrow> byte list" where
  "xorObfuscateIPv4 ip port =
     [0x00, 0x01, ucast (drop_bit 8 (port XOR 0x2112)), ucast (port XOR 0x2112)]
     @ map2 (\<lambda>x k. x XOR k) ip [0x21, 0x12, 0xA4, 0x42]"

text \<open>
  Error extraction as the specification words it: take the first ERROR-CODE attribute;
  without one, or when its value has fewer than 4 bytes, the result is \<open>(0, "")\<close>.
\<close>

definition first_ErrorCode :: "STUNAttribute list \<Rightarrow> STUNAttribute option" where
  "first_ErrorCode attrs = List.find (\<lambda>a. Type a = ErrorCode) attrs"

definition decode_ErrorCode :: "STUNAttribute \<Rightarrow> int \<times> string" where
  "decode_ErrorCode a =
     (uint (Value a ! 2 AND 0x07) * 100 + uint (Value a ! 3),
      string_of_bytes (drop 4 (Value a)))"

definition extractErrorCode_spec :: "STUNMessage \<Rightarrow> int \<times> string" where
  "extractErrorCode_spec msg =
     (case first_ErrorCode (Attributes msg) of
        None \<Rightarrow> (0, '''')
      | Some a \<Rightarrow> if length (Value a) < 4 then (0, '''') else decode_ErrorCode a)"

text \<open>The first ERROR-CODE attribute that has at least 4 value bytes.\<close>

definition first_usable_ErrorCode :: "STUNAttribute list \<Rightarrow> STUNAttribute option" where
  "first_usable_ErrorCode attrs =
     List.find (\<lambda>a. Type a = ErrorCode \<and> 4 \<le> length (Value a)) attrs"

section \<open>Concrete inputs\<close>

text \<open>A request with a CHANGE-REQUEST attribute and a 5-byte attribute that needs padding.\<close>

definition example_request :: STUNMessage where
  "example_request =
     \<lparr>MessageType = BindingRequest,
      TransactionID = [1, 2, 3, 4, 5, 6, 7, 8, 9, 10, 11, 12],
      Attributes = [\<lparr>Type = ChangeRequest, Length = 4, Value = [0, 0, 0, 6]\<rparr>,
                    \<lparr>Type = ErrorCode, Length = 5, Value = [0, 0, 4, 20, 85]\<rparr>]\<rparr>"

text \<open>
  28 bytes with a wrong length field (\<open>0xFFFF\<close>), a wrong magic cookie, and an
  attribute header that announces 8 value bytes where only 4 follow.
\<close>

definition garbled_header :: "byte list" where
  "garbled_header =
     [0x01, 0x01, 0xFF, 0xFF, 0xDE, 0xAD, 0xBE, 0xEF, 1, 2, 3, 4, 5, 6, 7, 8, 9, 10, 11, 12,
      0x00, 0x20, 0x00, 0x08, 0x00, 0x01, 0x30, 0x39]"

text \<open>An error response whose first ERROR-CODE attribute has only 2 value bytes.\<close>

definition short_then_long_error :: STUNMessage where
  "short_then_long_error =
     \<lparr>MessageType = BindingErrorResponse,
      TransactionID = [1, 2, 3, 4, 5, 6, 7, 8, 9, 10, 11, 12],
      Attributes = [\<lparr>Type = ErrorCode, Length = 2, Value = [0, 0]\<rparr>,
                    \<lparr>Type = ErrorCode, Length = 4, Value = [0, 0, 4, 20]\<rparr>]\<rparr>"

text \<open>
  A transaction identifier, an event in which resolving and writing succeed, and a
  client on which nothing has happened yet.
\<close>

definition tid :: "byte list" where
  "tid = [1, 2, 3, 4, 5, 6, 7, 8, 9, 10, 11, 12]"

definition event_with :: "recv_result \<Rightarrow> net_event" where
  "event_with r = \<lparr>resolve_err = None, rand_bytes = (\<lambda>i. 0), write_err = None, recv = r\<rparr>"

definition fresh_client :: STUNClient where
  "fresh_client = \<lparr>calls = 0, sent = []\<rparr>"

text \<open>
  Binding success responses that carry both a MAPPED-ADDRESS (203.0.113.1:12345) and an
  XOR-MAPPED-ADDRESS (198.51.100.7:54321), in the two orders.
\<close>

definition mapped_then_xor :: STUNMessage where
  "mapped_then_xor =
     \<lparr>MessageType = BindingResponse, TransactionID = tid,
      Attributes =
        [\<lparr>Type = MappedAddress, Length = 8, Value = [0, 1, 0x30, 0x39, 203, 0, 113, 1]\<rparr>,
         \<lparr>Type = XorMappedAddress, Length = 8,
           Value = xorObfuscateIPv4 [198, 51, 100, 7] 54321\<rparr>]\<rparr>"

definition xor_then_mapped :: STUNMessage where
  "xor_then_mapped =
     \<lparr>MessageType = BindingResponse, TransactionID = tid,
      Attributes =
        [\<lparr>Type = XorMappedAddress, Length = 8,
           Value = xorObfuscateIPv4 [198, 51, 100, 7] 54321\<rparr>,
         \<lparr>Type = MappedAddress, Length = 8, Value = [0, 1, 0x30, 0x39, 203, 0, 113, 1]\<rparr>]\<rparr>"

text \<open>
  Responses that carry a CHANGED-ADDRESS (192.0.2.1:3479) and an OTHER-ADDRESS
  (192.0.2.2:3479) in the two orders, and one that carries neither.
\<close>

definition changed_then_other :: STUNMessage where
  "changed_then_other =
     \<lparr>MessageType = BindingResponse, TransactionID = tid,
      Attributes =
        [\<lparr>Type = ChangedAddress, Length = 8, Value = [0, 1, 0x0D, 0x97, 192, 0, 2, 1]\<rparr>,
         \<lparr>Type = OtherAddress, Length = 8, Value = [0, 1, 0x0D, 0x97, 192, 0, 2, 2]\<rparr>]\<rparr>"

definition other_then_changed :: STUNMessage where
  "other_then_changed =
     \<lparr>MessageType = BindingResponse, TransactionID = tid,
      Attributes =
        [\<lparr>Type = XorMappedAddress, Length = 8,
           Value = xorObfuscateIPv4 [198, 51, 100, 7] 54321\<rparr>,
         \<lparr>Type = OtherAddress, Length = 8, Value = [0, 1, 0x0D, 0x97, 192, 0, 2, 2]\<rparr>,
         \<lparr>Type = ChangedAddress, Length = 8, Value = [0, 1, 0x0D, 0x97, 192, 0, 2, 1]\<rparr>]\<rparr>"

definition no_alternate :: STUNMessage where
  "no_alternate =
     \<lparr>MessageType = BindingResponse, TransactionID = tid,
      Attributes =
        [\<lparr>Type = XorMappedAddress, Length = 8,
           Value = xorObfuscateIPv4 [198, 51, 100, 7] 54321\<rparr>]\<rparr>"

text \<open>
  A Binding error response with code 420 and the reason phrase "Unknown Attribute".
\<close>

definition error_420 :: STUNMessage where
  "error_420 =
     \<lparr>MessageType = BindingErrorResponse, TransactionID = tid,
      Attributes =
        [\<lparr>Type = ErrorCode, Length = 21,
           Value = [0x00, 0x00, 0x04, 0x14, 0x55, 0x6E, 0x6B, 0x6E, 0x6F, 0x77, 0x6E, 0x20,
                    0x41, 0x74, 0x74, 0x72, 0x69, 0x62, 0x75, 0x74, 0x65]\<rparr>]\<rparr>"

text \<open>
  Three networks: every transaction is answered with \<open>xor_then_mapped\<close>; the
  first is answered with an alternate address and all later ones with error 420; the
  first is answered with an alternate address and all later ones time out.
\<close>

definition net_mapped :: network where
  "net_mapped =
     \<lparr>listen_fails = False,
      events = (\<lambda>k. event_with (Datagram (encodeMessage xor_then_mapped)))\<rparr>"

definition net_420 :: network where
  "net_420 =
     \<lparr>listen_fails = False,
      events = (\<lambda>k. if k = 0 then event_with (Datagram (encodeMessage other_then_changed))
                     else event_with (Datagram (encodeMessage error_420)))\<rparr>"

definition net_timeout :: network where
  "net_timeout =
     \<lparr>listen_fails = False,
      events = (\<lambda>k. if k = 0 then event_with (Datagram (encodeMessage other_then_changed))
                     else event_with (RecvError True))\<rparr>"

text \<open>
  The requests the client writes when \<open>rand.Read\<close> delivers zero bytes, and the
  client states after Test I, Test II and Test III against \<open>stun.example.org\<close>.
\<close>

definition plain_request :: "byte list" where
  "plain_request =
     encodeMessage \<lparr>MessageType = BindingRequest, TransactionID = replicate 12 0, Attributes = []\<rparr>"

definition change_request :: "byte \<Rightarrow> byte list" where
  "change_request flags =
     encodeMessage \<lparr>MessageType = BindingRequest, TransactionID = replicate 12 0,
       Attributes = [\<lparr>Type = ChangeRequest, Length = 4, Value = [0, 0, 0, flags]\<rparr>]\<rparr>"

definition after_test_I :: STUNClient where
  "after_test_I = \<lparr>calls = 1, sent = [(''stun.example.org:3478'', plain_request, 3)]\<rparr>"

definition after_test_II :: STUNClient where
  "after_test_II =
     \<lparr>calls = 2, sent = [(''stun.example.org:3478'', plain_request, 3),
                         (''stun.example.org:3478'', change_request 6, 5)]\<rparr>"

definition after_test_III :: STUNClient where
  "after_test_III =
     \<lparr>calls = 3, sent = [(''stun.example.org:3478'', plain_request, 3),
                         (''stun.example.org:3478'', change_request 6, 5),
                         (''stun.example.org:3478'', change_request 2, 5)]\<rparr>"

section \<open>Codec lemmas\<close>

lemma Uint16_PutUint16: "Uint16 (PutUint16 v) = v"
  unfolding Uint16_def PutUint16_def
  apply simp
  apply (rule bit_word_eqI)
  apply (auto simp: bit_simps)
  done

lemma length_PutUint16: "length (PutUint16 v) = 2"
  by (simp add: PutUint16_def)

lemma length_PutUint32: "length (PutUint32 v) = 4"
  by (simp add: PutUint32_def)

lemma PutUint32_cookie: "PutUint32 STUNMagicCookie = STUNMagicCookieBytes"
  by (simp add: PutUint32_def STUNMagicCookie_def STUNMagicCookieBytes_def)

lemma xor_twice: "((x :: 'a :: len word) XOR k) XOR k = x"
  by (simp add: xor.assoc)

lemma copy_at_zeros:
  "length pre = lo \<Longrightarrow> hi - lo = length src \<Longrightarrow> length src \<le> n \<Longrightarrow>
   copy_at (pre @ replicate n z) lo hi src = (pre @ src) @ replicate (n - length src) z"
  by (simp add: copy_at_def)

lemma copy_fresh: "copy_at (replicate (length xs) z) 0 (length xs) xs = xs"
  by (simp add: copy_at_def)

lemma attrLen_acc: "attrLen attrs n = n + attrLen attrs 0"
  by (induction attrs arbitrary: n) (simp, metis (no_types, lifting) attrLen.simps(2) add.assoc add.commute add.left_commute add_0)

lemma length_wire_attr:
  "wf_attr a \<Longrightarrow> length (wire_attr a) = 4 + unat (Length a) + padding (Length a)"
  by (simp add: wire_attr_def wf_attr_def length_PutUint16)

lemma attrLen_Cons:
  "attrLen (a # rest) 0 = 4 + unat (Length a) + padding (Length a) + attrLen rest 0"
  using attrLen_acc [of rest "4 + unat (Length a) + padding (Length a)"] by simp

lemma encode_one:
  assumes wf: "wf_attr a" and pre: "length pre = offset"
    and room: "4 + unat (Length a) + padding (Length a) \<le> n"
  shows "copy_at (copy_at (copy_at (pre @ replicate n 0) offset (offset + 2) (PutUint16 (Type a)))
            (offset + 2) (offset + 4) (PutUint16 (Length a)))
            (offset + 4) (offset + 4 + unat (Length a)) (Value a)
         = (pre @ wire_attr a) @ replicate (n - (4 + unat (Length a) + padding (Length a))) 0"
proof -
  let ?t = "PutUint16 (Type a)" and ?l = "PutUint16 (Length a)" and ?L = "unat (Length a)"
  have s1: "copy_at (pre @ replicate n 0) offset (offset + 2) ?t = (pre @ ?t) @ replicate (n - 2) 0"
    using pre room by (simp add: copy_at_zeros length_PutUint16)
  have s2: "copy_at ((pre @ ?t) @ replicate (n - 2) 0) (offset + 2) (offset + 4) ?l
            = ((pre @ ?t) @ ?l) @ replicate (n - 4) 0"
    using pre room copy_at_zeros [of "pre @ ?t" "offset + 2" "offset + 4" ?l "n - 2" 0]
    by (simp add: length_PutUint16)
  have s3: "copy_at (((pre @ ?t) @ ?l) @ replicate (n - 4) 0) (offset + 4) (offset + 4 + ?L) (Value a)
            = (((pre @ ?t) @ ?l) @ Value a) @ replicate (n - 4 - ?L) 0"
    using pre room wf copy_at_zeros [of "(pre @ ?t) @ ?l" "offset + 4" "offset + 4 + ?L" "Value a" "n - 4" 0]
    by (simp add: length_PutUint16 wf_attr_def)
  have split: "replicate (n - 4 - ?L) (0::byte)
               = replicate (padding (Length a)) 0 @ replicate (n - (4 + ?L + padding (Length a))) 0"
    using room by (simp add: replicate_add [symmetric])
  show ?thesis
    unfolding s1 s2 s3 split by (simp add: wire_attr_def)
qed

lemma encodeAttrs_concat:
  "list_all wf_attr attrs \<Longrightarrow> length pre = offset \<Longrightarrow> attrLen attrs 0 \<le> n \<Longrightarrow>
   encodeAttrs attrs (pre @ replicate n 0) offset
     = pre @ concat (map wire_attr attrs) @ replicate (n - attrLen attrs 0) 0"
proof (induction attrs arbitrary: pre offset n)
  case Nil
  then show ?case by simp
next
  case (Cons a rest)
  let ?k = "4 + unat (Length a) + padding (Length a)"
  have wf: "wf_attr a" and wfr: "list_all wf_attr rest" using Cons.prems(1) by simp_all
  have room: "?k \<le> n" and roomr: "attrLen rest 0 \<le> n - ?k"
    using Cons.prems(3) attrLen_Cons [of a rest] by simp_all
  have len: "length (pre @ wire_attr a) = offset + ?k"
    using Cons.prems(2) wf by (simp add: length_wire_attr)
  have "encodeAttrs (a # rest) (pre @ replicate n 0) offset
        = encodeAttrs rest ((pre @ wire_attr a) @ replicate (n - ?k) 0) (offset + ?k)"
    using encode_one [OF wf Cons.prems(2) room] by (simp add: Let_def add.assoc)
  also have "\<dots> = (pre @ wire_attr a) @ concat (map wire_attr rest) @ replicate (n - ?k - attrLen rest 0) 0"
    by (rule Cons.IH [OF wfr len roomr])
  finally show ?case
    using attrLen_Cons [of a rest] by (simp add: diff_diff_left add.commute add.left_commute)
qed

lemma subslice_at:
  "lo = length pre \<Longrightarrow> hi = lo + length xs \<Longrightarrow> subslice (pre @ xs @ ys) lo hi = xs"
  by (simp add: subslice_def)

lemma subslice_wire_type:
  "subslice (pre @ wire_attr a @ rest) (length pre) (length pre + 2) = PutUint16 (Type a)"
proof -
  have "subslice (pre @ PutUint16 (Type a) @ (PutUint16 (Length a) @ Value a @ replicate (padding (Length a)) 0 @ rest))
          (length pre) (length pre + 2) = PutUint16 (Type a)"
    by (rule subslice_at) (simp_all add: length_PutUint16)
  then show ?thesis by (simp add: wire_attr_def)
qed

lemma subslice_wire_length:
  "subslice (pre @ wire_attr a @ rest) (length pre + 2) (length pre + 4) = PutUint16 (Length a)"
proof -
  have "subslice ((pre @ PutUint16 (Type a)) @ PutUint16 (Length a) @ (Value a @ replicate (padding (Length a)) 0 @ rest))
          (length pre + 2) (length pre + 4) = PutUint16 (Length a)"
    by (rule subslice_at) (simp_all add: length_PutUint16)
  then show ?thesis by (simp add: wire_attr_def)
qed

lemma subslice_wire_value:
  assumes "wf_attr a"
  shows "subslice (pre @ wire_attr a @ rest) (length pre + 4) (length pre + 4 + unat (Length a)) = Value a"
proof -
  have "subslice ((pre @ PutUint16 (Type a) @ PutUint16 (Length a)) @ Value a @ (replicate (padding (Length a)) 0 @ rest))
          (length pre + 4) (length pre + 4 + unat (Length a)) = Value a"
    using assms by (intro subslice_at) (simp_all add: length_PutUint16 wf_attr_def)
  then show ?thesis by (simp add: wire_attr_def)
qed

lemma decodeAttrs_stop:
  "\<not> (offset < length data \<and> \<not> offset + 4 > length data
       \<and> \<not> offset + 4 + unat (Uint16 (subslice data (offset + 2) (offset + 4))) > length data)
   \<Longrightarrow> decodeAttrs data offset attrs = attrs"
  by (subst decodeAttrs.simps) (auto simp only: Let_def split: if_splits)

lemma decodeAttrs_step:
  "offset < length data \<Longrightarrow> \<not> offset + 4 > length data \<Longrightarrow>
   \<not> offset + 4 + unat (Uint16 (subslice data (offset + 2) (offset + 4))) > length data \<Longrightarrow>
   decodeAttrs data offset attrs =
     decodeAttrs data
       (offset + 4 + unat (Uint16 (subslice data (offset + 2) (offset + 4)))
          + padding (Uint16 (subslice data (offset + 2) (offset + 4))))
       (attrs @ [\<lparr>Type = Uint16 (subslice data offset (offset + 2)),
                   Length = Uint16 (subslice data (offset + 2) (offset + 4)),
                   Value = copy_at (replicate (unat (Uint16 (subslice data (offset + 2) (offset + 4)))) 0) 0
                             (unat (Uint16 (subslice data (offset + 2) (offset + 4))))
                             (subslice data (offset + 4)
                                (offset + 4 + unat (Uint16 (subslice data (offset + 2) (offset + 4)))))\<rparr>])"
  by (subst decodeAttrs.simps) (simp only: Let_def if_True if_False)

lemma decodeAttrs_prefix:
  "length pre' = length pre \<Longrightarrow> length pre \<le> offset \<Longrightarrow>
   decodeAttrs (pre @ rest) offset acc = decodeAttrs (pre' @ rest) offset acc"
proof (induction "pre @ rest" offset acc rule: decodeAttrs.induct)
  case (1 offset attrs)
  let ?d = "pre @ rest" and ?d' = "pre' @ rest"
  let ?len = "Uint16 (subslice ?d (offset + 2) (offset + 4))"
  have L: "length ?d' = length ?d" using "1.prems" by simp
  have S: "subslice ?d' lo hi = subslice ?d lo hi" if "length pre \<le> lo" for lo hi
    using that "1.prems"(1) by (simp add: subslice_def)
  have S1: "subslice ?d' offset (offset + 2) = subslice ?d offset (offset + 2)"
    and S2: "subslice ?d' (offset + 2) (offset + 4) = subslice ?d (offset + 2) (offset + 4)"
    and S3: "\<And>n. subslice ?d' (offset + 4) (offset + 4 + n) = subslice ?d (offset + 4) (offset + 4 + n)"
    using "1.prems"(2) by (simp_all add: S)
  show ?case
  proof (cases "offset < length ?d \<and> \<not> offset + 4 > length ?d \<and> \<not> offset + 4 + unat ?len > length ?d")
    case True
    then have c1: "offset < length ?d" and c2: "\<not> offset + 4 > length ?d"
      and c3: "\<not> offset + 4 + unat ?len > length ?d" by simp_all
    have bound: "length pre \<le> offset + 4 + unat ?len + padding ?len"
      using "1.prems"(2) by simp
    note IH = "1.hyps" [OF c1 c2 refl refl c3 refl "1.prems"(1) bound]
    have l: "decodeAttrs ?d offset attrs = decodeAttrs ?d (offset + 4 + unat ?len + padding ?len)
        (attrs @ [\<lparr>Type = Uint16 (subslice ?d offset (offset + 2)), Length = ?len,
                    Value = copy_at (replicate (unat ?len) 0) 0 (unat ?len)
                              (subslice ?d (offset + 4) (offset + 4 + unat ?len))\<rparr>])"
      by (rule decodeAttrs_step [OF c1 c2 c3])
    have c1': "offset < length ?d'" and c2': "\<not> offset + 4 > length ?d'"
      and c3': "\<not> offset + 4 + unat (Uint16 (subslice ?d' (offset + 2) (offset + 4))) > length ?d'"
      using c1 c2 c3 unfolding L S2 by simp_all
    have r: "decodeAttrs ?d' offset attrs = decodeAttrs ?d' (offset + 4 + unat ?len + padding ?len)
        (attrs @ [\<lparr>Type = Uint16 (subslice ?d offset (offset + 2)), Length = ?len,
                    Value = copy_at (replicate (unat ?len) 0) 0 (unat ?len)
                              (subslice ?d (offset + 4) (offset + 4 + unat ?len))\<rparr>])"
      using decodeAttrs_step [OF c1' c2' c3', of attrs] unfolding S1 S2 S3 .
    show ?thesis unfolding l r by (rule IH)
  next
    case False
    then have F': "\<not> (offset < length ?d' \<and> \<not> offset + 4 > length ?d'
       \<and> \<not> offset + 4 + unat (Uint16 (subslice ?d' (offset + 2) (offset + 4))) > length ?d')"
      unfolding L S2 .
    show ?thesis
      unfolding decodeAttrs_stop [OF False] decodeAttrs_stop [OF F'] ..
  qed
qed

lemma decodeAttrs_truncated:
  assumes "truncated t"
  shows "decodeAttrs (pre @ t) (length pre) acc = acc"
proof -
  have s: "subslice (pre @ t) (length pre + 2) (length pre + 4) = subslice t 2 4"
    by (simp add: subslice_def)
  have "\<not> (length pre < length (pre @ t) \<and> \<not> length pre + 4 > length (pre @ t)
       \<and> \<not> length pre + 4 + unat (Uint16 (subslice t 2 4)) > length (pre @ t))"
    using assms by (auto simp: truncated_def)
  then have "\<not> (length pre < length (pre @ t) \<and> \<not> length pre + 4 > length (pre @ t)
       \<and> \<not> length pre + 4 + unat (Uint16 (subslice (pre @ t) (length pre + 2) (length pre + 4)))
             > length (pre @ t))"
    unfolding s .
  then show ?thesis by (rule decodeAttrs_stop)
qed

lemma encodeMessage_wire:
  assumes "wf_msg m"
  shows "encodeMessage m =
     (PutUint16 (MessageType m) @ PutUint16 (word_of_nat (attrLen (Attributes m) 0))
        @ PutUint32 STUNMagicCookie @ TransactionID m) @ concat (map wire_attr (Attributes m))"
proof -
  let ?n = "attrLen (Attributes m) 0"
  let ?t = "PutUint16 (MessageType m)" and ?l = "PutUint16 (word_of_nat ?n)"
  let ?c = "PutUint32 STUNMagicCookie" and ?x = "TransactionID m"
  have tx: "length ?x = 12" and wfa: "list_all wf_attr (Attributes m)"
    using assms by (simp_all add: wf_msg_def)
  have s1: "copy_at (replicate (20 + ?n) 0) 0 2 ?t = ([] @ ?t) @ replicate (18 + ?n) 0"
    using copy_at_zeros [of "[]" 0 2 ?t "20 + ?n" 0] by (simp add: length_PutUint16)
  have s2: "copy_at (([] @ ?t) @ replicate (18 + ?n) 0) 2 4 ?l = (([] @ ?t) @ ?l) @ replicate (16 + ?n) 0"
    using copy_at_zeros [of "[] @ ?t" 2 4 ?l "18 + ?n" 0] by (simp add: length_PutUint16)
  have s3: "copy_at ((([] @ ?t) @ ?l) @ replicate (16 + ?n) 0) 4 8 ?c
            = ((([] @ ?t) @ ?l) @ ?c) @ replicate (12 + ?n) 0"
    using copy_at_zeros [of "([] @ ?t) @ ?l" 4 8 ?c "16 + ?n" 0]
    by (simp add: length_PutUint16 length_PutUint32)
  have s4: "copy_at (((([] @ ?t) @ ?l) @ ?c) @ replicate (12 + ?n) 0) 8 20 ?x
            = (((([] @ ?t) @ ?l) @ ?c) @ ?x) @ replicate ?n 0"
    using copy_at_zeros [of "(([] @ ?t) @ ?l) @ ?c" 8 20 ?x "12 + ?n" 0] tx
    by (simp add: length_PutUint16 length_PutUint32)
  have hl: "length (((([] @ ?t) @ ?l) @ ?c) @ ?x) = 20"
    using tx by (simp add: length_PutUint16 length_PutUint32)
  have "encodeMessage m = encodeAttrs (Attributes m) ((((([] @ ?t) @ ?l) @ ?c) @ ?x) @ replicate ?n 0) 20"
    unfolding encodeMessage_def Let_def s1 s2 s3 s4 ..
  also have "\<dots> = (((([] @ ?t) @ ?l) @ ?c) @ ?x) @ concat (map wire_attr (Attributes m)) @ replicate (?n - ?n) 0"
    by (rule encodeAttrs_concat [OF wfa hl]) simp
  finally show ?thesis by simp
qed

lemma decodeMessage_cookie_length_irrelevant:
  assumes len: "20 \<le> length data" and junk: "length junk = 6"
  shows "decodeMessage (take 2 data @ junk @ drop 8 data) = decodeMessage data"
proof -
  let ?d' = "(take 2 data @ junk) @ drop 8 data"
  have d: "take 8 data @ drop 8 data = data" by simp
  have L: "length ?d' = length data" using len junk by simp
  have ty: "subslice ?d' 0 2 = subslice data 0 2"
    using len by (simp add: subslice_def)
  have tx: "subslice ?d' 8 20 = subslice data 8 20"
    using len junk by (simp add: subslice_def)
  have "decodeAttrs (take 8 data @ drop 8 data) 20 [] = decodeAttrs ?d' 20 []"
    by (rule decodeAttrs_prefix) (use len junk in simp_all)
  then have at: "decodeAttrs ?d' 20 [] = decodeAttrs data 20 []"
    unfolding d by simp
  have "decodeMessage ?d' = decodeMessage data"
    unfolding decodeMessage_def L ty tx at ..
  then show ?thesis by simp
qed

lemma decodeAttrs_wire_tail:
  "list_all wf_attr attrs \<Longrightarrow> truncated t \<Longrightarrow>
   decodeAttrs (pre @ concat (map wire_attr attrs) @ t) (length pre) acc = acc @ attrs"
proof (induction attrs arbitrary: pre acc)
  case Nil
  then show ?case by (simp add: decodeAttrs_truncated)
next
  case (Cons a rest)
  have wf: "wf_attr a" and wfr: "list_all wf_attr rest" using Cons.prems by simp_all
  let ?rest = "concat (map wire_attr rest) @ t"
  let ?data = "pre @ wire_attr a @ ?rest"
  let ?L = "unat (Length a)"
  have len: "length ?data = length pre + (4 + ?L + padding (Length a)) + length ?rest"
    using wf by (simp add: length_wire_attr)
  have val: "copy_at (replicate ?L 0) 0 ?L (Value a) = Value a"
    using wf copy_fresh [of "Value a" 0] by (simp add: wf_attr_def)
  have ty: "Uint16 (subslice ?data (length pre) (length pre + 2)) = Type a"
    by (simp only: subslice_wire_type Uint16_PutUint16)
  have ln: "Uint16 (subslice ?data (length pre + 2) (length pre + 4)) = Length a"
    by (simp only: subslice_wire_length Uint16_PutUint16)
  have vl: "subslice ?data (length pre + 4) (length pre + 4 + ?L) = Value a"
    by (rule subslice_wire_value [OF wf])
  have eta: "\<lparr>Type = Type a, Length = Length a, Value = Value a\<rparr> = a"
    by simp
  have c1: "length pre < length ?data" and c2: "\<not> length pre + 4 > length ?data"
    and c3: "\<not> length pre + 4 + ?L > length ?data"
    using len by simp_all
  have step: "decodeAttrs ?data (length pre) acc
        = decodeAttrs ?data (length pre + 4 + ?L + padding (Length a)) (acc @ [a])"
    by (subst decodeAttrs.simps) (simp only: c1 c2 c3 ty ln vl val eta Let_def if_True if_False)
  have "decodeAttrs ((pre @ wire_attr a) @ ?rest) (length (pre @ wire_attr a)) (acc @ [a])
        = (acc @ [a]) @ rest"
    by (rule Cons.IH [OF wfr Cons.prems(2)])
  then show ?case
    using step wf by (simp add: length_wire_attr add.assoc)
qed

lemma decode_encode_tail:
  assumes "wf_msg m" and "truncated t"
  shows "decodeMessage (encodeMessage m @ t) = Inr m"
proof -
  let ?n = "attrLen (Attributes m) 0"
  let ?t = "PutUint16 (MessageType m)" and ?l = "PutUint16 (word_of_nat ?n)"
  let ?c = "PutUint32 STUNMagicCookie" and ?x = "TransactionID m"
  let ?hdr = "?t @ ?l @ ?c @ ?x"
  let ?body = "concat (map wire_attr (Attributes m)) @ t"
  have tx: "length ?x = 12" and wfa: "list_all wf_attr (Attributes m)"
    using assms by (simp_all add: wf_msg_def)
  have enc: "encodeMessage m @ t = ?hdr @ ?body"
    using encodeMessage_wire [OF assms(1)] by simp
  have hl: "length ?hdr = 20"
    using tx by (simp add: length_PutUint16 length_PutUint32)
  have ty: "subslice (?hdr @ ?body) 0 2 = ?t"
    using subslice_at [of 0 "[]" 2 ?t "?l @ ?c @ ?x @ ?body"] by (simp add: length_PutUint16)
  have txs: "subslice (?hdr @ ?body) 8 20 = ?x"
    using subslice_at [of 8 "?t @ ?l @ ?c" 20 ?x ?body] tx
    by (simp add: length_PutUint16 length_PutUint32)
  have txc: "copy_at (replicate 12 0) 0 12 ?x = ?x"
    using copy_fresh [of ?x 0] tx by simp
  have attrs: "decodeAttrs (?hdr @ ?body) 20 [] = Attributes m"
    using decodeAttrs_wire_tail [OF wfa assms(2), of ?hdr "[]"] hl by simp
  have "\<not> length (?hdr @ ?body) < 20" using hl by simp
  then show ?thesis
    unfolding enc decodeMessage_def
    by (simp only: if_False ty txs txc attrs Uint16_PutUint16) simp
qed

lemma truncated_Nil: "truncated []"
  by (simp add: truncated_def)

lemma extractErrorCode_loop_find:
  "extractErrorCode_loop attrs =
     (case first_usable_ErrorCode attrs of None \<Rightarrow> (0, '''') | Some a \<Rightarrow> decode_ErrorCode a)"
  by (induction attrs)
     (auto simp: first_usable_ErrorCode_def decode_ErrorCode_def string_of_bytes_def Let_def)

lemma first_usable_of_first:
  "(first_ErrorCode attrs = None \<longrightarrow> first_usable_ErrorCode attrs = None)
   \<and> (first_ErrorCode attrs = Some a \<longrightarrow> 4 \<le> length (Value a) \<longrightarrow>
        first_usable_ErrorCode attrs = Some a)"
  by (induction attrs) (auto simp: first_ErrorCode_def first_usable_ErrorCode_def)

section \<open>Codec properties\<close>

text \<open>
  C5. For every well-formed message (12-byte transaction identifier, every attribute's
  Length field equal to the byte length of its Value), decoding the encoded message
  succeeds and gives back the message: the same message type, the same transaction
  identifier and the same (type, length, value) triples in the same order.
\<close>

theorem decode_encode_roundtrip:
  "wf_msg m \<Longrightarrow>
     decodeMessage (encodeMessage m) = Inr m
   \<and> (\<exists>m'. decodeMessage (encodeMessage m) = Inr m'
          \<and> MessageType m' = MessageType m
          \<and> TransactionID m' = TransactionID m
          \<and> map (\<lambda>a. (Type a, Length a, Value a)) (Attributes m')
              = map (\<lambda>a. (Type a, Length a, Value a)) (Attributes m))"
  using decode_encode_tail [of m "[]"] by (simp add: truncated_Nil)

text \<open>
  The round trip at \<open>example_request\<close>, with the bytes of its encoding.
\<close>

theorem decode_encode_roundtrip_witness:
  "wf_msg example_request
   \<and> decodeMessage (encodeMessage example_request) = Inr example_request
   \<and> encodeMessage example_request =
       [0, 1, 0, 20, 0x21, 0x12, 0xA4, 0x42, 1, 2, 3, 4, 5, 6, 7, 8, 9, 10, 11, 12,
        0, 3, 0, 4, 0, 0, 0, 6, 0, 9, 0, 5, 0, 0, 4, 20, 85, 0, 0, 0]"
proof -
  have wf: "wf_msg example_request"
    by (simp add: wf_msg_def wf_attr_def example_request_def)
  have enc: "encodeMessage example_request =
       [0, 1, 0, 20, 0x21, 0x12, 0xA4, 0x42, 1, 2, 3, 4, 5, 6, 7, 8, 9, 10, 11, 12,
        0, 3, 0, 4, 0, 0, 0, 6, 0, 9, 0, 5, 0, 0, 4, 20, 85, 0, 0, 0]"
    by code_simp
  show ?thesis
    using wf enc decode_encode_roundtrip [OF wf] by simp
qed

text \<open>
  C6. For every IPv4 address \<open>a.b.c.d\<close> and every 16-bit port, the payload obtained
  by XORing the port with \<open>0x2112\<close> and the address bytes with the magic cookie parses
  in XOR mode to exactly that address and port, whatever the transaction identifier.
  In bytes: the payload of 203.0.113.1:54321 is \<open>00 01 F5 23 EA 12 D5 43\<close>, and these
  eight bytes parse to 203.0.113.1:54321.
\<close>

theorem parseAddress_xor_ipv4:
  "parseAddress (xorObfuscateIPv4 [a, b, c, d] port) True txID
     = Inr \<lparr>IP = [a, b, c, d], Port = uint port\<rparr>
   \<and> xorObfuscateIPv4 [203, 0, 113, 1] 54321 = [0x00, 0x01, 0xF5, 0x23, 0xEA, 0x12, 0xD5, 0x43]
   \<and> parseAddress [0x00, 0x01, 0xF5, 0x23, 0xEA, 0x12, 0xD5, 0x43] True txID
       = Inr \<lparr>IP = [203, 0, 113, 1], Port = 54321\<rparr>"
proof -
  have general: "parseAddress (xorObfuscateIPv4 [a, b, c, d] port) True txID
     = Inr \<lparr>IP = [a, b, c, d], Port = uint port\<rparr>" for a b c d port
  proof -
    let ?p = "PutUint16 (port XOR 0x2112)"
    let ?data = "xorObfuscateIPv4 [a, b, c, d] port"
    have data: "?data = [0, 1, ?p ! 0, ?p ! 1, a XOR 0x21, b XOR 0x12, c XOR 0xA4, d XOR 0x42]"
      by (simp add: xorObfuscateIPv4_def PutUint16_def)
    have p: "subslice ?data 2 4 = ?p"
      unfolding data by (simp add: subslice_def PutUint16_def)
    have ip: "subslice ?data 4 8 = [a XOR 0x21, b XOR 0x12, c XOR 0xA4, d XOR 0x42]"
      unfolding data by (simp add: subslice_def)
    have len: "length ?data = 8" and fam: "?data ! 1 = 1"
      unfolding data by simp_all
    have port: "Uint16 (subslice ?data 2 4) XOR 0x2112 = port"
      unfolding p Uint16_PutUint16 by (rule xor_twice)
    show ?thesis
      unfolding parseAddress_def Let_def
      by (simp only: len fam ip port)
         (simp add: copy_at_def xor_bytes_def STUNMagicCookieBytes_def xor_twice)
  qed
  have bytes: "xorObfuscateIPv4 [203, 0, 113, 1] 54321
                 = [0x00, 0x01, 0xF5, 0x23, 0xEA, 0x12, 0xD5, 0x43]"
    by code_simp
  have "parseAddress (xorObfuscateIPv4 [203, 0, 113, 1] 54321) True txID
          = Inr \<lparr>IP = [203, 0, 113, 1], Port = uint (54321 :: uint16)\<rparr>"
    by (rule general)
  then have concrete: "parseAddress [0x00, 0x01, 0xF5, 0x23, 0xEA, 0x12, 0xD5, 0x43] True txID
       = Inr \<lparr>IP = [203, 0, 113, 1], Port = 54321\<rparr>"
    unfolding bytes by simp
  show ?thesis
    using general [of a b c d port] bytes concrete by simp
qed

text \<open>
  The theorem at 203.0.113.1:54321 with two different transaction identifiers: the
  wire bytes \<open>00 01 F5 23 EA 12 D5 43\<close> parse to the same endpoint under both.
\<close>

theorem parseAddress_xor_ipv4_witness:
  "parseAddress [0x00, 0x01, 0xF5, 0x23, 0xEA, 0x12, 0xD5, 0x43] True tid
     = Inr \<lparr>IP = [203, 0, 113, 1], Port = 54321\<rparr>
   \<and> parseAddress [0x00, 0x01, 0xF5, 0x23, 0xEA, 0x12, 0xD5, 0x43] True (replicate 12 0xFF)
     = Inr \<lparr>IP = [203, 0, 113, 1], Port = 54321\<rparr>
   \<and> parseAddress [0x00, 0x01, 0xF5, 0x23, 0xEA, 0x12, 0xD5, 0x43] False tid
     = Inr \<lparr>IP = [0xEA, 0x12, 0xD5, 0x43], Port = 0xF523\<rparr>"
proof -
  have plain: "parseAddress [0x00, 0x01, 0xF5, 0x23, 0xEA, 0x12, 0xD5, 0x43] False tid
     = Inr \<lparr>IP = [0xEA, 0x12, 0xD5, 0x43], Port = 0xF523\<rparr>"
    by code_simp
  show ?thesis
    using parseAddress_xor_ipv4 [of 203 0 113 1 54321 tid]
      parseAddress_xor_ipv4 [of 203 0 113 1 54321 "replicate 12 0xFF"] plain
    by simp
qed

text \<open>
  C9. \<open>decodeMessage\<close> fails exactly on inputs shorter than 20 bytes. On every
  input of at least 20 bytes it returns a message whose type and transaction
  identifier are read from bytes 0..2 and 8..20; replacing bytes 2..8 (the declared
  length and the magic cookie) by any six bytes does not change the result; and bytes
  after a valid message that do not hold a whole attribute are dropped.
\<close>

theorem decodeMessage_fails_only_when_short:
  "(length data < 20 \<longrightarrow> decodeMessage data = Inl MessageTooShort)
   \<and> (20 \<le> length data \<longrightarrow>
        decodeMessage data =
          Inr \<lparr>MessageType = Uint16 (subslice data 0 2),
               TransactionID = subslice data 8 20,
               Attributes = decodeAttrs data 20 []\<rparr>)
   \<and> (20 \<le> length data \<longrightarrow> length junk = 6 \<longrightarrow>
        decodeMessage (take 2 data @ junk @ drop 8 data) = decodeMessage data)
   \<and> (wf_msg m \<longrightarrow> truncated t \<longrightarrow> decodeMessage (encodeMessage m @ t) = Inr m)"
proof (intro conjI impI)
  assume "length data < 20"
  then show "decodeMessage data = Inl MessageTooShort"
    by (simp add: decodeMessage_def)
next
  assume len: "20 \<le> length data"
  have "length (subslice data 8 20) = 12" using len by (simp add: subslice_def)
  then have "copy_at (replicate 12 0) 0 12 (subslice data 8 20) = subslice data 8 20"
    using copy_fresh [of "subslice data 8 20" 0] by simp
  then show "decodeMessage data =
          Inr \<lparr>MessageType = Uint16 (subslice data 0 2),
               TransactionID = subslice data 8 20,
               Attributes = decodeAttrs data 20 []\<rparr>"
    using len by (simp add: decodeMessage_def)
next
  assume "20 \<le> length data" and "length junk = 6"
  then show "decodeMessage (take 2 data @ junk @ drop 8 data) = decodeMessage data"
    by (rule decodeMessage_cookie_length_irrelevant)
next
  assume "wf_msg m" and "truncated t"
  then show "decodeMessage (encodeMessage m @ t) = Inr m"
    by (rule decode_encode_tail)
qed

text \<open>
  The four parts at concrete inputs: 19 zero bytes; \<open>garbled_header\<close>; the same
  with the header bytes 2..8 replaced; and \<open>example_request\<close> followed by a cut-off
  attribute.
\<close>

theorem decodeMessage_fails_only_when_short_witness:
  "length (replicate 19 (0 :: byte)) < 20
   \<and> decodeMessage (replicate 19 0) = Inl MessageTooShort
   \<and> 20 \<le> length garbled_header
   \<and> decodeMessage garbled_header =
        Inr \<lparr>MessageType = BindingResponse,
             TransactionID = [1, 2, 3, 4, 5, 6, 7, 8, 9, 10, 11, 12],
             Attributes = []\<rparr>
   \<and> length [0x00, 0x1C, 0x21, 0x12, 0xA4, 0x42 :: byte] = 6
   \<and> decodeMessage (take 2 garbled_header @ [0x00, 0x1C, 0x21, 0x12, 0xA4, 0x42] @ drop 8 garbled_header)
        = decodeMessage garbled_header
   \<and> wf_msg example_request \<and> truncated [0x00, 0x20, 0x00, 0x08, 0x00]
   \<and> decodeMessage (encodeMessage example_request @ [0x00, 0x20, 0x00, 0x08, 0x00])
        = Inr example_request"
proof -
  have short: "length (replicate 19 (0 :: byte)) < 20" by simp
  have long: "20 \<le> length garbled_header" by (simp add: garbled_header_def)
  have junk: "length [0x00, 0x1C, 0x21, 0x12, 0xA4, 0x42 :: byte] = 6" by simp
  have wf: "wf_msg example_request"
    by (simp add: wf_msg_def wf_attr_def example_request_def)
  have tr: "truncated [0x00, 0x20, 0x00, 0x08, 0x00]" by code_simp
  have ev: "\<lparr>MessageType = Uint16 (subslice garbled_header 0 2),
             TransactionID = subslice garbled_header 8 20,
             Attributes = decodeAttrs garbled_header 20 []\<rparr>
            = \<lparr>MessageType = BindingResponse,
               TransactionID = [1, 2, 3, 4, 5, 6, 7, 8, 9, 10, 11, 12],
               Attributes = []\<rparr>"
    by code_simp
  show ?thesis
    using short long junk wf tr ev
      decodeMessage_fails_only_when_short [of "replicate 19 0" "[]" example_request "[]"]
      decodeMessage_fails_only_when_short
        [of garbled_header "[0x00, 0x1C, 0x21, 0x12, 0xA4, 0x42]" example_request
            "[0x00, 0x20, 0x00, 0x08, 0x00]"]
    by simp
qed

text \<open>
  C4, as the code has it. Error extraction returns \<open>(class * 100 + number, reason)\<close>
  of the first ERROR-CODE attribute whose value has at least 4 bytes (class: the low
  3 bits of value byte 2, number: value byte 3, reason: the bytes from index 4 on), and
  \<open>(0, "")\<close> when there is no such attribute. So without any ERROR-CODE attribute the
  result is \<open>(0, "")\<close>, and when the first ERROR-CODE attribute has at least 4 value
  bytes it is the one decoded.
\<close>

theorem extractErrorCode_first_usable:
  "extractErrorCode msg =
     (case first_usable_ErrorCode (Attributes msg) of
        None \<Rightarrow> (0, '''')
      | Some a \<Rightarrow> decode_ErrorCode a)
   \<and> (first_ErrorCode (Attributes msg) = None \<longrightarrow> extractErrorCode msg = (0, ''''))
   \<and> (first_ErrorCode (Attributes msg) = Some a \<longrightarrow> 4 \<le> length (Value a) \<longrightarrow>
        extractErrorCode msg = decode_ErrorCode a)"
  using first_usable_of_first [of "Attributes msg" a]
  by (auto simp: extractErrorCode_def extractErrorCode_loop_find)

text \<open>
  The theorem at \<open>no_alternate\<close>, which has no ERROR-CODE attribute, and at
  \<open>error_420\<close>, whose ERROR-CODE value is \<open>00 00 04 14\<close> followed by the text
  "Unknown Attribute".
\<close>

theorem extractErrorCode_first_usable_witness:
  "first_ErrorCode (Attributes no_alternate) = None
   \<and> extractErrorCode no_alternate = (0, '''')
   \<and> first_ErrorCode (Attributes error_420) = Some (hd (Attributes error_420))
   \<and> 4 \<le> length (Value (hd (Attributes error_420)))
   \<and> decode_ErrorCode (hd (Attributes error_420)) = (420, ''Unknown Attribute'')
   \<and> extractErrorCode error_420 = (420, ''Unknown Attribute'')"
proof -
  have n: "first_ErrorCode (Attributes no_alternate) = None" by code_simp
  have f: "first_ErrorCode (Attributes error_420) = Some (hd (Attributes error_420))" by code_simp
  have l: "4 \<le> length (Value (hd (Attributes error_420)))" by (simp add: error_420_def)
  have d: "decode_ErrorCode (hd (Attributes error_420)) = (420, ''Unknown Attribute'')" by code_simp
  have a: "extractErrorCode no_alternate = (0, '''')"
    using extractErrorCode_first_usable [of no_alternate "hd (Attributes error_420)"] n by blast
  have b: "extractErrorCode error_420 = decode_ErrorCode (hd (Attributes error_420))"
    using extractErrorCode_first_usable [of error_420 "hd (Attributes error_420)"] f l by blast
  show ?thesis
    using n f l d a b by simp
qed

text \<open>
  C4 as stated fails when the first ERROR-CODE attribute is shorter than 4 bytes and a
  later one is not: the statement gives \<open>(0, "")\<close>, the code skips the short
  attribute and decodes the later one.
\<close>

theorem extractErrorCode_first_short_counterexample:
  "first_ErrorCode (Attributes short_then_long_error)
     = Some \<lparr>Type = ErrorCode, Length = 2, Value = [0, 0]\<rparr>
   \<and> extractErrorCode_spec short_then_long_error = (0, '''')
   \<and> extractErrorCode short_then_long_error = (420, '''')"
  by (simp add: first_ErrorCode_def extractErrorCode_spec_def extractErrorCode_def
        short_then_long_error_def ErrorCode_def string_of_bytes_def)

section \<open>Transaction engine and alternate-address probe\<close>

lemma Xor_neq_Mapped: "XorMappedAddress \<noteq> MappedAddress"
  by (simp add: XorMappedAddress_def MappedAddress_def)

lemma SendBindingRequest_scan_first:
  "list_all (\<lambda>x. Type x \<noteq> XorMappedAddress \<and> Type x \<noteq> MappedAddress) pre \<Longrightarrow>
   Type a = XorMappedAddress \<or> Type a = MappedAddress \<Longrightarrow>
   SendBindingRequest_scan (pre @ a # post) txID
     = parseAddress (Value a) (Type a = XorMappedAddress) txID"
  by (induction pre) (auto simp: Xor_neq_Mapped)

lemma SendBindingRequest_response:
  assumes "resolve_err (env (calls c)) = None" and "write_err (env (calls c)) = None"
    and "recv (env (calls c)) = Datagram d"
    and "decodeMessage (take 1024 d) = Inr response"
    and "MessageType response \<noteq> BindingErrorResponse"
  shows "fst (SendBindingRequest env c serverAddr changeIP changePort)
           = SendBindingRequest_scan (Attributes response) (TransactionID response)"
  using assms by (simp add: SendBindingRequest_def Let_def)

lemma SendBindingRequest_calls:
  "SendBindingRequest env c serverAddr changeIP changePort = (r, c') \<Longrightarrow> calls c' = calls c + 1"
  by (auto simp: SendBindingRequest_def Let_def
           split: option.splits recv_result.splits sum.splits prod.splits if_splits)

lemma GetAlternateAddress_scan_first:
  "list_all (\<lambda>x. Type x \<noteq> OtherAddress \<and> Type x \<noteq> ChangedAddress) pre \<Longrightarrow>
   Type a = OtherAddress \<or> Type a = ChangedAddress \<Longrightarrow>
   GetAlternateAddress_scan (pre @ a # post) txID = parseAddress (Value a) False txID"
  by (induction pre) auto

lemma GetAlternateAddress_scan_none:
  "list_all (\<lambda>x. Type x \<noteq> OtherAddress \<and> Type x \<noteq> ChangedAddress) attrs \<Longrightarrow>
   GetAlternateAddress_scan attrs txID = Inl OtherAddressNotFound"
  by (induction attrs) auto

lemma GetAlternateAddress_response:
  assumes "resolve_err (env (calls c)) = None" and "write_err (env (calls c)) = None"
    and "recv (env (calls c)) = Datagram d"
    and "decodeMessage (take 1024 d) = Inr response"
  shows "fst (GetAlternateAddress env c serverAddr)
           = GetAlternateAddress_scan (Attributes response) (TransactionID response)"
  using assms by (simp add: GetAlternateAddress_def Let_def)

text \<open>
  C2, as the code has it. On a Binding success response, \<open>SendBindingRequest\<close>
  returns the address parsed from the first attribute of the list that is an
  XOR-MAPPED-ADDRESS or a MAPPED-ADDRESS: in XOR mode when that attribute is an
  XOR-MAPPED-ADDRESS, in plain mode when it is a MAPPED-ADDRESS.
\<close>

theorem SendBindingRequest_first_mapped:
  assumes "resolve_err (env (calls c)) = None" and "write_err (env (calls c)) = None"
    and "recv (env (calls c)) = Datagram d"
    and "decodeMessage (take 1024 d) = Inr response"
    and "MessageType response = BindingResponse"
    and "Attributes response = pre @ a # post"
    and "list_all (\<lambda>x. Type x \<noteq> XorMappedAddress \<and> Type x \<noteq> MappedAddress) pre"
    and "Type a = XorMappedAddress \<or> Type a = MappedAddress"
  shows "fst (SendBindingRequest env c serverAddr changeIP changePort)
           = parseAddress (Value a) (Type a = XorMappedAddress) (TransactionID response)"
proof -
  have "MessageType response \<noteq> BindingErrorResponse"
    using assms(5) by (simp add: BindingResponse_def BindingErrorResponse_def)
  then show ?thesis
    using SendBindingRequest_response [of env c d response, OF assms(1-4)]
      SendBindingRequest_scan_first [OF assms(7,8)]
    by (simp add: assms(6))
qed

text \<open>
  The theorem at \<open>xor_then_mapped\<close>: the XOR-MAPPED-ADDRESS comes first and is the
  one returned.
\<close>

theorem SendBindingRequest_first_mapped_witness:
  "resolve_err (event_with (Datagram (encodeMessage xor_then_mapped))) = None
   \<and> write_err (event_with (Datagram (encodeMessage xor_then_mapped))) = None
   \<and> decodeMessage (take 1024 (encodeMessage xor_then_mapped)) = Inr xor_then_mapped
   \<and> MessageType xor_then_mapped = BindingResponse
   \<and> fst (SendBindingRequest (\<lambda>k. event_with (Datagram (encodeMessage xor_then_mapped)))
             fresh_client ''stun.example.org:3478'' False False)
        = Inr \<lparr>IP = [198, 51, 100, 7], Port = 54321\<rparr>"
proof -
  let ?d = "encodeMessage xor_then_mapped"
  let ?env = "\<lambda>k :: nat. event_with (Datagram ?d)"
  let ?a = "\<lparr>Type = XorMappedAddress, Length = 8, Value = xorObfuscateIPv4 [198, 51, 100, 7] 54321\<rparr>"
  let ?post = "[\<lparr>Type = MappedAddress, Length = 8, Value = [0, 1, 0x30, 0x39, 203, 0, 113, 1]\<rparr>]"
  have h1: "resolve_err (?env (calls fresh_client)) = None"
    and h2: "write_err (?env (calls fresh_client)) = None"
    and h3: "recv (?env (calls fresh_client)) = Datagram ?d"
    by (simp_all add: event_with_def)
  have h4: "decodeMessage (take 1024 ?d) = Inr xor_then_mapped" by code_simp
  have h5: "MessageType xor_then_mapped = BindingResponse" by (simp add: xor_then_mapped_def)
  have h6: "Attributes xor_then_mapped = [] @ ?a # ?post" by (simp add: xor_then_mapped_def)
  have h7: "list_all (\<lambda>x. Type x \<noteq> XorMappedAddress \<and> Type x \<noteq> MappedAddress) []" by simp
  have h8: "Type ?a = XorMappedAddress \<or> Type ?a = MappedAddress" by simp
  have p: "parseAddress (Value ?a) (Type ?a = XorMappedAddress) (TransactionID xor_then_mapped)
             = Inr \<lparr>IP = [198, 51, 100, 7], Port = 54321\<rparr>"
    by code_simp
  show ?thesis
    using SendBindingRequest_first_mapped
            [of ?env fresh_client ?d xor_then_mapped "[]" ?a ?post
                "''stun.example.org:3478''" False False, OF h1 h2 h3 h4 h5 h6 h7 h8]
      h4 h5 p
    by (simp add: event_with_def)
qed

text \<open>
  C2 as stated fails when the MAPPED-ADDRESS precedes the XOR-MAPPED-ADDRESS: at
  \<open>mapped_then_xor\<close> the XOR-MAPPED-ADDRESS holds 198.51.100.7:54321, and
  \<open>SendBindingRequest\<close> returns 203.0.113.1:12345, the plain MAPPED-ADDRESS.
\<close>

theorem SendBindingRequest_xor_precedence_counterexample:
  "decodeMessage (take 1024 (encodeMessage mapped_then_xor)) = Inr mapped_then_xor
   \<and> MessageType mapped_then_xor = BindingResponse
   \<and> map Type (Attributes mapped_then_xor) = [MappedAddress, XorMappedAddress]
   \<and> parseAddress (Value (Attributes mapped_then_xor ! 1)) True (TransactionID mapped_then_xor)
        = Inr \<lparr>IP = [198, 51, 100, 7], Port = 54321\<rparr>
   \<and> fst (SendBindingRequest (\<lambda>k. event_with (Datagram (encodeMessage mapped_then_xor)))
             fresh_client ''stun.example.org:3478'' False False)
        = Inr \<lparr>IP = [203, 0, 113, 1], Port = 12345\<rparr>"
  by code_simp

text \<open>
  What the attribute loop of \<open>GetAlternateAddress\<close> computes on a response that
  decodes: the first attribute of the list that is an OTHER-ADDRESS or a
  CHANGED-ADDRESS, parsed as a non-XOR address, and the alternate-address-missing
  error when the list holds neither.
\<close>

lemma GetAlternateAddress_first_alternate:
  assumes "resolve_err (env (calls c)) = None" and "write_err (env (calls c)) = None"
    and "recv (env (calls c)) = Datagram d"
    and "decodeMessage (take 1024 d) = Inr response"
  shows "(Attributes response = pre @ a # post \<longrightarrow>
            list_all (\<lambda>x. Type x \<noteq> OtherAddress \<and> Type x \<noteq> ChangedAddress) pre \<longrightarrow>
            Type a = OtherAddress \<or> Type a = ChangedAddress \<longrightarrow>
            fst (GetAlternateAddress env c serverAddr)
              = parseAddress (Value a) False (TransactionID response))
       \<and> (list_all (\<lambda>x. Type x \<noteq> OtherAddress \<and> Type x \<noteq> ChangedAddress) (Attributes response) \<longrightarrow>
            fst (GetAlternateAddress env c serverAddr) = Inl OtherAddressNotFound)"
  using GetAlternateAddress_response [of env c d response serverAddr, OF assms]
  by (auto simp: GetAlternateAddress_scan_first GetAlternateAddress_scan_none)

text \<open>
  The loop at \<open>other_then_changed\<close>, where the OTHER-ADDRESS comes first and is
  returned, and at \<open>no_alternate\<close>, where the probe fails.
\<close>

lemma GetAlternateAddress_first_alternate_example:
  "decodeMessage (take 1024 (encodeMessage other_then_changed)) = Inr other_then_changed
   \<and> map Type (Attributes other_then_changed) = [XorMappedAddress, OtherAddress, ChangedAddress]
   \<and> fst (GetAlternateAddress (\<lambda>k. event_with (Datagram (encodeMessage other_then_changed)))
             fresh_client ''stun.example.org:3478'')
        = Inr \<lparr>IP = [192, 0, 2, 2], Port = 3479\<rparr>
   \<and> decodeMessage (take 1024 (encodeMessage no_alternate)) = Inr no_alternate
   \<and> fst (GetAlternateAddress (\<lambda>k. event_with (Datagram (encodeMessage no_alternate)))
             fresh_client ''stun.example.org:3478'')
        = Inl OtherAddressNotFound"
proof -
  let ?d = "encodeMessage other_then_changed" and ?n = "encodeMessage no_alternate"
  let ?env = "\<lambda>k :: nat. event_with (Datagram ?d)"
  let ?envn = "\<lambda>k :: nat. event_with (Datagram ?n)"
  let ?pre = "[\<lparr>Type = XorMappedAddress, Length = 8, Value = xorObfuscateIPv4 [198, 51, 100, 7] 54321\<rparr>]"
  let ?a = "\<lparr>Type = OtherAddress, Length = 8, Value = [0, 1, 0x0D, 0x97, 192, 0, 2, 2]\<rparr>"
  let ?post = "[\<lparr>Type = ChangedAddress, Length = 8, Value = [0, 1, 0x0D, 0x97, 192, 0, 2, 1]\<rparr>]"
  have h1: "resolve_err (?env (calls fresh_client)) = None"
    and h2: "write_err (?env (calls fresh_client)) = None"
    and h3: "recv (?env (calls fresh_client)) = Datagram ?d"
    and n1: "resolve_err (?envn (calls fresh_client)) = None"
    and n2: "write_err (?envn (calls fresh_client)) = None"
    and n3: "recv (?envn (calls fresh_client)) = Datagram ?n"
    by (simp_all add: event_with_def)
  have h4: "decodeMessage (take 1024 ?d) = Inr other_then_changed" by code_simp
  have n4: "decodeMessage (take 1024 ?n) = Inr no_alternate" by code_simp
  have ty: "map Type (Attributes other_then_changed) = [XorMappedAddress, OtherAddress, ChangedAddress]"
    by (simp add: other_then_changed_def)
  have h6: "Attributes other_then_changed = ?pre @ ?a # ?post" by (simp add: other_then_changed_def)
  have h7: "list_all (\<lambda>x. Type x \<noteq> OtherAddress \<and> Type x \<noteq> ChangedAddress) ?pre"
    by (simp add: XorMappedAddress_def OtherAddress_def ChangedAddress_def)
  have h8: "Type ?a = OtherAddress \<or> Type ?a = ChangedAddress" by simp
  have n7: "list_all (\<lambda>x. Type x \<noteq> OtherAddress \<and> Type x \<noteq> ChangedAddress) (Attributes no_alternate)"
    by (simp add: no_alternate_def XorMappedAddress_def OtherAddress_def ChangedAddress_def)
  have p: "parseAddress (Value ?a) False (TransactionID other_then_changed)
             = Inr \<lparr>IP = [192, 0, 2, 2], Port = 3479\<rparr>"
    by code_simp
  show ?thesis
    using GetAlternateAddress_first_alternate
            [of ?env fresh_client ?d other_then_changed ?pre ?a ?post "''stun.example.org:3478''",
             OF h1 h2 h3 h4]
          GetAlternateAddress_first_alternate
            [of ?envn fresh_client ?n no_alternate ?pre ?a ?post "''stun.example.org:3478''",
             OF n1 n2 n3 n4]
          h4 n4 ty h6 h7 h8 n7 p
    by simp
qed

text \<open>
  C7. The comment on \<open>GetAlternateAddress\<close> says that it fetches the OTHER-ADDRESS and
  falls back to CHANGED-ADDRESS for servers that do not send OTHER-ADDRESS. The code
  does not do this when both are present and the CHANGED-ADDRESS comes first: the
  response \<open>changed_then_other\<close> decodes to a CHANGED-ADDRESS followed by an
  OTHER-ADDRESS, the OTHER-ADDRESS holds 192.0.2.2:3479, and
  \<open>GetAlternateAddress\<close> returns 192.0.2.1:3479, the CHANGED-ADDRESS.
\<close>

theorem GetAlternateAddress_changed_before_other:
  "decodeMessage (take 1024 (encodeMessage changed_then_other)) = Inr changed_then_other
   \<and> map Type (Attributes changed_then_other) = [ChangedAddress, OtherAddress]
   \<and> parseAddress (Value (Attributes changed_then_other ! 1)) False (TransactionID changed_then_other)
        = Inr \<lparr>IP = [192, 0, 2, 2], Port = 3479\<rparr>
   \<and> fst (GetAlternateAddress (\<lambda>k. event_with (Datagram (encodeMessage changed_then_other)))
             fresh_client ''stun.example.org:3478'')
        = Inr \<lparr>IP = [192, 0, 2, 1], Port = 3479\<rparr>"
  by code_simp

section \<open>Filtering classifier: Test II\<close>

text \<open>
  C3. Let Test I have harvested an alternate address, leaving the client in state
  \<open>c1\<close>, and let Test II (change IP and port) end in state \<open>c2\<close>. If Test II
  yields a STUN error response, the classifier returns filtering Unknown with
  \<open>SupportsChangeRequest = False\<close>, and the client is left in \<open>c2\<close>: exactly one
  transaction after Test I, so Test III is not attempted. If Test II times out, the
  classifier goes on to Test III (change port only): the client is left in the state
  \<open>c3\<close> after that request, two transactions after Test I, and the verdict is the
  one Test III gives.
\<close>

theorem CheckFilteringBehavior_TestII_error_or_timeout:
  assumes client: "NewSTUNClient net = Inr client"
    and step1: "alternate_ports (events net) serverAddr ports (None, None, [], client)
                  = (Some alt, err, serverWithPort, c1)"
    and test2: "SendBindingRequest (events net) c1 serverWithPort True True = (r2, c2)"
    and test3: "SendBindingRequest (events net) c2 serverWithPort False True = (r3, c3)"
  shows "(r2 = Inl (StunErrorResponse code reason) \<longrightarrow>
            CheckFilteringBehavior net serverAddr =
              (Inr \<lparr>FilteringType = FilteringUnknown,
                    FilteringResponse = \<lparr>OtherAddr = Some alt, TestIIResponse = False,
                                          TestIIIResponse = False\<rparr>,
                    ServerSupport = \<lparr>SupportsChangeRequest = False,
                                      SupportsOtherAddress = True\<rparr>\<rparr>, Some c2)
            \<and> calls c2 = calls c1 + 1)
       \<and> (r2 = Inl (NetError Read True) \<longrightarrow>
            CheckFilteringBehavior net serverAddr =
              (Inr \<lparr>FilteringType = (if isl r3 then AddressPortDependentFiltering
                                     else AddressDependentFiltering),
                    FilteringResponse = \<lparr>OtherAddr = Some alt, TestIIResponse = False,
                                          TestIIIResponse = (\<not> isl r3)\<rparr>,
                    ServerSupport = \<lparr>SupportsChangeRequest = True,
                                      SupportsOtherAddress = True\<rparr>\<rparr>, Some c3)
            \<and> calls c3 = calls c1 + 2)"
proof (intro conjI impI)
  assume r2: "r2 = Inl (StunErrorResponse code reason)"
  show "CheckFilteringBehavior net serverAddr =
              (Inr \<lparr>FilteringType = FilteringUnknown,
                    FilteringResponse = \<lparr>OtherAddr = Some alt, TestIIResponse = False,
                                          TestIIIResponse = False\<rparr>,
                    ServerSupport = \<lparr>SupportsChangeRequest = False,
                                      SupportsOtherAddress = True\<rparr>\<rparr>, Some c2)"
    using client step1 test2 r2
    by (simp add: CheckFilteringBehavior_def Let_def addr_of_def err_of_def)
  show "calls c2 = calls c1 + 1"
    using test2 by (rule SendBindingRequest_calls)
next
  assume r2: "r2 = Inl (NetError Read True)"
  show "CheckFilteringBehavior net serverAddr =
              (Inr \<lparr>FilteringType = (if isl r3 then AddressPortDependentFiltering
                                     else AddressDependentFiltering),
                    FilteringResponse = \<lparr>OtherAddr = Some alt, TestIIResponse = False,
                                          TestIIIResponse = (\<not> isl r3)\<rparr>,
                    ServerSupport = \<lparr>SupportsChangeRequest = True,
                                      SupportsOtherAddress = True\<rparr>\<rparr>, Some c3)"
    using client step1 test2 test3 r2
    by (cases r3) (simp_all add: CheckFilteringBehavior_def Let_def addr_of_def err_of_def)
  show "calls c3 = calls c1 + 2"
    using SendBindingRequest_calls [OF test2] SendBindingRequest_calls [OF test3] by simp
qed

text \<open>
  The theorem against \<open>net_420\<close> and against \<open>net_timeout\<close>.
\<close>

theorem CheckFilteringBehavior_TestII_error_or_timeout_witness:
  "NewSTUNClient net_420 = Inr fresh_client
   \<and> alternate_ports (events net_420) ''stun.example.org'' ports (None, None, [], fresh_client)
       = (Some \<lparr>IP = [192, 0, 2, 2], Port = 3479\<rparr>, None, ''stun.example.org:3478'', after_test_I)
   \<and> SendBindingRequest (events net_420) after_test_I ''stun.example.org:3478'' True True
       = (Inl (StunErrorResponse 420 ''Unknown Attribute''), after_test_II)
   \<and> CheckFilteringBehavior net_420 ''stun.example.org''
       = (Inr \<lparr>FilteringType = FilteringUnknown,
               FilteringResponse = \<lparr>OtherAddr = Some \<lparr>IP = [192, 0, 2, 2], Port = 3479\<rparr>,
                                     TestIIResponse = False, TestIIIResponse = False\<rparr>,
               ServerSupport = \<lparr>SupportsChangeRequest = False, SupportsOtherAddress = True\<rparr>\<rparr>,
          Some after_test_II)
   \<and> NewSTUNClient net_timeout = Inr fresh_client
   \<and> alternate_ports (events net_timeout) ''stun.example.org'' ports (None, None, [], fresh_client)
       = (Some \<lparr>IP = [192, 0, 2, 2], Port = 3479\<rparr>, None, ''stun.example.org:3478'', after_test_I)
   \<and> SendBindingRequest (events net_timeout) after_test_I ''stun.example.org:3478'' True True
       = (Inl (NetError Read True), after_test_II)
   \<and> SendBindingRequest (events net_timeout) after_test_II ''stun.example.org:3478'' False True
       = (Inl (NetError Read True), after_test_III)
   \<and> CheckFilteringBehavior net_timeout ''stun.example.org''
       = (Inr \<lparr>FilteringType = AddressPortDependentFiltering,
               FilteringResponse = \<lparr>OtherAddr = Some \<lparr>IP = [192, 0, 2, 2], Port = 3479\<rparr>,
                                     TestIIResponse = False, TestIIIResponse = False\<rparr>,
               ServerSupport = \<lparr>SupportsChangeRequest = True, SupportsOtherAddress = True\<rparr>\<rparr>,
          Some after_test_III)"
proof -
  let ?alt = "\<lparr>IP = [192, 0, 2, 2], Port = 3479\<rparr>"
  let ?s = "''stun.example.org''" and ?sp = "''stun.example.org:3478''"
  have e1: "NewSTUNClient net_420 = Inr fresh_client" by code_simp
  have e2: "alternate_ports (events net_420) ?s ports (None, None, [], fresh_client)
              = (Some ?alt, None, ?sp, after_test_I)" by code_simp
  have e3: "SendBindingRequest (events net_420) after_test_I ?sp True True
              = (Inl (StunErrorResponse 420 ''Unknown Attribute''), after_test_II)" by code_simp
  have e4: "SendBindingRequest (events net_420) after_test_II ?sp False True
              = (fst (SendBindingRequest (events net_420) after_test_II ?sp False True),
                 snd (SendBindingRequest (events net_420) after_test_II ?sp False True))" by simp
  have t1: "NewSTUNClient net_timeout = Inr fresh_client" by code_simp
  have t2: "alternate_ports (events net_timeout) ?s ports (None, None, [], fresh_client)
              = (Some ?alt, None, ?sp, after_test_I)" by code_simp
  have t3: "SendBindingRequest (events net_timeout) after_test_I ?sp True True
              = (Inl (NetError Read True), after_test_II)" by code_simp
  have t4: "SendBindingRequest (events net_timeout) after_test_II ?sp False True
              = (Inl (NetError Read True), after_test_III)" by code_simp
  show ?thesis
    using e1 e2 e3 t1 t2 t3 t4
      CheckFilteringBehavior_TestII_error_or_timeout [OF e1 e2 e3 e4, of 420 "''Unknown Attribute''"]
      CheckFilteringBehavior_TestII_error_or_timeout [OF t1 t2 t3 t4, of 420 "''Unknown Attribute''"]
    by simp
qed

section \<open>Legacy taxonomy\<close>

text \<open>
  C8. The legacy-name lookup follows the table: with endpoint-independent mapping the
  three known filtering behaviours give Full Cone, Restricted Cone and Port Restricted
  Cone; address-dependent and address-and-port-dependent mapping give Symmetric NAT
  whatever the filtering; every remaining pair, (EndpointIndependent, Unknown) among
  them, gives Unknown NAT Type.
\<close>

theorem LegacyName_table:
  "LegacyName \<lparr>Mapping = m, Filtering = f\<rparr> =
     (case m of
        EndpointIndependent \<Rightarrow>
          (case f of
             EndpointIndependentFiltering \<Rightarrow> ''Full Cone NAT''
           | AddressDependentFiltering \<Rightarrow> ''Restricted Cone NAT''
           | AddressPortDependentFiltering \<Rightarrow> ''Port Restricted Cone NAT''
           | FilteringUnknown \<Rightarrow> ''Unknown NAT Type'')
      | AddressDependent \<Rightarrow> ''Symmetric NAT''
      | AddressPortDependent \<Rightarrow> ''Symmetric NAT''
      | Unknown \<Rightarrow> ''Unknown NAT Type'')"
  by (cases m; cases f) (simp_all add: LegacyName_def)

section \<open>Mapping classification\<close>

text \<open>
  C1. For every three observed endpoints the mapping classification is
  AddressPortDependent when the ports of A1 and A2 differ, else EndpointIndependent when
  the ports of A1 and B1 agree, else AddressDependent; replacing the three IP addresses
  by any others leaves the result unchanged.
\<close>

theorem determineNATType_ports:
  "determineNATType (Some a1) (Some b1) (Some a2) =
     Inr (if Port a1 \<noteq> Port a2 then AddressPortDependent
          else if Port a1 = Port b1 then EndpointIndependent
          else AddressDependent)
   \<and> determineNATType (Some (a1\<lparr>IP := ipa\<rparr>)) (Some (b1\<lparr>IP := ipb\<rparr>)) (Some (a2\<lparr>IP := ipc\<rparr>))
       = determineNATType (Some a1) (Some b1) (Some a2)"
  by (simp add: determineNATType_def)

section \<open>Mapping classifier\<close>

lemma determineNATType_not_Unknown: "determineNATType x y z \<noteq> Inr Unknown"
  by (simp add: determineNATType_def split: option.splits)

lemma probe_ports_addr:
  "probe_ports env server ps (m, e, c) = (m', None, c') \<Longrightarrow> ps \<noteq> [] \<Longrightarrow> m' \<noteq> None"
proof (induction ps arbitrary: m e c)
  case Nil
  then show ?case by simp
next
  case (Cons p ps)
  obtain r c1 where s: "SendBindingRequest env c (server @ p) False False = (r, c1)"
    by (cases "SendBindingRequest env c (server @ p) False False")
  show ?case
  proof (cases r)
    case (Inr a)
    then show ?thesis using Cons.prems s by (auto simp: err_of_def addr_of_def)
  next
    case (Inl x)
    then have rec: "probe_ports env server ps (None, Some x, c1) = (m', None, c')"
      using Cons.prems s by (simp add: err_of_def addr_of_def)
    show ?thesis
    proof (cases ps)
      case Nil
      then show ?thesis using rec by simp
    next
      case (Cons q qs)
      then show ?thesis using Cons.IH [OF rec] by simp
    qed
  qed
qed

text \<open>
  The three probe loops leave non-nil addresses when they end without error, so the
  call of \<open>determineNATType\<close> in \<open>CheckMappingType\<close> never dereferences nil.
\<close>

lemma CheckMappingType_no_panic: "fst (CheckMappingType net serverIpA serverIpB) \<noteq> Inl (Panicked p)"
proof
  assume a: "fst (CheckMappingType net serverIpA serverIpB) = Inl (Panicked p)"
  have ne: "ports \<noteq> []" by (simp add: ports_def)
  from a obtain client a1 c1 b1 c2 a2 c3 where
    pa1: "probe_ports (events net) serverIpA ports (None, None, client) = (a1, None, c1)" and
    pb1: "probe_ports (events net) serverIpB ports (None, None, c1) = (b1, None, c2)" and
    pa2: "probe_ports (events net) serverIpA ports (None, None, c2) = (a2, None, c3)" and
    d: "determineNATType a1 b1 a2 = Inl p"
    by (auto simp: CheckMappingType_def split: sum.splits prod.splits option.splits)
  have "a1 \<noteq> None" "b1 \<noteq> None" "a2 \<noteq> None"
    using probe_ports_addr [OF pa1 ne] probe_ports_addr [OF pb1 ne] probe_ports_addr [OF pa2 ne]
    by simp_all
  then show False
    using d by (auto simp: determineNATType_def split: if_splits)
qed

text \<open>
  C10. For every three non-nil endpoints \<open>determineNATType\<close> returns
  EndpointIndependent, AddressDependent or AddressPortDependent, never Unknown; hence
  a \<open>CheckMappingType\<close> call that succeeds never reports the mapping Unknown.
\<close>

theorem mapping_never_Unknown:
  "(determineNATType (Some a1) (Some b1) (Some a2) = Inr EndpointIndependent
      \<or> determineNATType (Some a1) (Some b1) (Some a2) = Inr AddressDependent
      \<or> determineNATType (Some a1) (Some b1) (Some a2) = Inr AddressPortDependent)
   \<and> determineNATType (Some a1) (Some b1) (Some a2) \<noteq> Inr Unknown
   \<and> (fst (CheckMappingType net serverIpA serverIpB) = Inr res \<longrightarrow> NATType res \<noteq> Unknown)"
proof (intro conjI impI)
  show "determineNATType (Some a1) (Some b1) (Some a2) = Inr EndpointIndependent
      \<or> determineNATType (Some a1) (Some b1) (Some a2) = Inr AddressDependent
      \<or> determineNATType (Some a1) (Some b1) (Some a2) = Inr AddressPortDependent"
    by (simp add: determineNATType_def)
  show "determineNATType (Some a1) (Some b1) (Some a2) \<noteq> Inr Unknown"
    by (rule determineNATType_not_Unknown)
next
  assume "fst (CheckMappingType net serverIpA serverIpB) = Inr res"
  then obtain x y z where "determineNATType x y z = Inr (NATType res)"
    by (auto simp: CheckMappingType_def split: sum.splits prod.splits option.splits)
  then show "NATType res \<noteq> Unknown"
    using determineNATType_not_Unknown [of x y z] by auto
qed

text \<open>
  The theorem against \<open>net_mapped\<close>: three probes observe the same endpoint.
\<close>

theorem mapping_never_Unknown_witness:
  "fst (CheckMappingType net_mapped ''stun-a.example.org'' ''stun-b.example.org'')
     = Inr \<lparr>NATType = EndpointIndependent,
            MappingResponse =
              \<lparr>MappingA1 = Some \<lparr>IP = [198, 51, 100, 7], Port = 54321\<rparr>,
               MappingB1 = Some \<lparr>IP = [198, 51, 100, 7], Port = 54321\<rparr>,
               MappingA2 = Some \<lparr>IP = [198, 51, 100, 7], Port = 54321\<rparr>\<rparr>\<rparr>
   \<and> NATType \<lparr>NATType = EndpointIndependent,
            MappingResponse =
              \<lparr>MappingA1 = Some \<lparr>IP = [198, 51, 100, 7], Port = 54321\<rparr>,
               MappingB1 = Some \<lparr>IP = [198, 51, 100, 7], Port = 54321\<rparr>,
               MappingA2 = Some \<lparr>IP = [198, 51, 100, 7], Port = 54321\<rparr>\<rparr>\<rparr> \<noteq> Unknown"
proof -
  let ?a = "\<lparr>IP = [198, 51, 100, 7], Port = 54321\<rparr>"
  let ?r = "\<lparr>NATType = EndpointIndependent,
            MappingResponse = \<lparr>MappingA1 = Some ?a, MappingB1 = Some ?a, MappingA2 = Some ?a\<rparr>\<rparr>"
  have h: "fst (CheckMappingType net_mapped ''stun-a.example.org'' ''stun-b.example.org'') = Inr ?r"
    by code_simp
  show ?thesis
    using h mapping_never_Unknown
              [of ?a ?a ?a net_mapped "''stun-a.example.org''" "''stun-b.example.org''" ?r]
    by simp
qed

end
